theory Spec2Isabelle
  imports Main "HOL-Library.Sublist"
begin

section \<open>JavaScript values and string helpers\<close>

text \<open>
  A value read from a parsed JSON body or from \<^verbatim>\<open>process.env\<close>. Strings are kept as they
  are; every other value is kept by the two things the code asks of it: its truthiness
  (\<^verbatim>\<open>!v\<close>) and its rendering in a template literal (\<^verbatim>\<open>`${v}`\<close>). The rendering is
  \<open>None\<close> for a value whose conversion to a string throws a \<^verbatim>\<open>TypeError\<close>, such as the
  object \<^verbatim>\<open>{"toString": 1}\<close>.
\<close>

datatype jsval = JUndefined | JStr string | JOther bool "string option"

fun truthy :: "jsval \<Rightarrow> bool" where
  "truthy JUndefined = False"
| "truthy (JStr s) = (s \<noteq> [])"
| "truthy (JOther b r) = b"

fun toString :: "jsval \<Rightarrow> string option" where
  \<comment> \<open>the conversion a template literal applies; \<open>None\<close> when it throws\<close>
  "toString JUndefined = Some ''undefined''"
| "toString (JStr s) = Some s"
| "toString (JOther b r) = r"

definition cannot_convert :: string where
  \<comment> \<open>the message of the \<^verbatim>\<open>TypeError\<close> of a failed conversion\<close>
  "cannot_convert = ''Cannot convert object to primitive value''"

definition js_or :: "jsval \<Rightarrow> jsval \<Rightarrow> jsval" where
  \<comment> \<open>\<^verbatim>\<open>a || b\<close>\<close>
  "js_or a b = (if truthy a then a else b)"

definition digit_char :: "nat \<Rightarrow> char" where
  \<comment> \<open>the character of a digit \<open>d < 10\<close>\<close>
  "digit_char d = ''0123456789'' ! d"

fun show_nat :: "nat \<Rightarrow> string" where
  \<comment> \<open>the decimal rendering of a non-negative integer, as \<^verbatim>\<open>`${n}`\<close> gives it\<close>
  "show_nat n = (if n < 10 then [digit_char n] else show_nat (n div 10) @ [digit_char (n mod 10)])"

declare show_nat.simps [simp del]

definition show_code :: "int option \<Rightarrow> string" where
  \<comment> \<open>the rendering of a child process's exit code, \<^verbatim>\<open>null\<close> when a signal ended it\<close>
  "show_code c = (case c of None \<Rightarrow> ''null''
                  | Some i \<Rightarrow> if i < 0 then ''-'' @ show_nat (nat (- i)) else show_nat (nat i))"

definition startsWith :: "string \<Rightarrow> string \<Rightarrow> bool" where
  "startsWith s p = (take (length p) s = p)"

definition endsWith :: "string \<Rightarrow> string \<Rightarrow> bool" where
  "endsWith s p = (length p \<le> length s \<and> drop (length s - length p) s = p)"

fun str_includes :: "string \<Rightarrow> string \<Rightarrow> bool" where
  \<comment> \<open>\<^verbatim>\<open>s.includes(p)\<close>: \<open>p\<close> occurs in \<open>s\<close> as a contiguous run\<close>
  "str_includes [] p = (p = [])"
| "str_includes (c # cs) p = (startsWith (c # cs) p \<or> str_includes cs p)"

definition slice :: "nat \<Rightarrow> nat \<Rightarrow> string \<Rightarrow> string" where
  \<comment> \<open>\<^verbatim>\<open>s.slice(a, b)\<close> for \<open>0 \<le> a \<le> b\<close>; both ends are clamped to the length\<close>
  "slice a b s = take (b - a) (drop a s)"

definition slice_from :: "nat \<Rightarrow> string \<Rightarrow> string" where
  \<comment> \<open>\<^verbatim>\<open>s.slice(a)\<close>\<close>
  "slice_from a s = drop a s"

definition char_at :: "string \<Rightarrow> nat \<Rightarrow> char option" where
  \<comment> \<open>\<^verbatim>\<open>s[i]\<close>, \<^verbatim>\<open>undefined\<close> out of range\<close>
  "char_at s i = (if i < length s then Some (s ! i) else None)"

section \<open>Phone numbers (telephonyService.ts)\<close>

definition is_digit :: "char \<Rightarrow> bool" where
  "is_digit c = (c \<in> set ''0123456789'')"

definition strip_non_digits :: "string \<Rightarrow> string" where
  \<comment> \<open>\<^verbatim>\<open>phoneNumber.replace(/\D/g, '')\<close>\<close>
  "strip_non_digits s = filter is_digit s"

definition formatPhoneNumber :: "string \<Rightarrow> string" where
  "formatPhoneNumber phoneNumber =
     (let digits = strip_non_digits phoneNumber in
      if length digits = 10 then
        ''('' @ slice 0 3 digits @ '') '' @ slice 3 6 digits @ ''-'' @ slice_from 6 digits
      else if length digits = 11 \<and> char_at digits 0 = Some CHR ''1'' then
        ''+1 ('' @ slice 1 4 digits @ '') '' @ slice 4 7 digits @ ''-'' @ slice_from 7 digits
      else phoneNumber)"

definition isValidPhoneNumber :: "string \<Rightarrow> bool" where
  "isValidPhoneNumber phoneNumber =
     (let digits = strip_non_digits phoneNumber in
      length digits = 10 \<or> (length digits = 11 \<and> char_at digits 0 = Some CHR ''1''))"

section \<open>Event-callback registration (telephonyService.ts, sipService.ts)\<close>

text \<open>
  Both services keep a nullable room and an array of handlers. A handler is a function
  reference; \<^verbatim>\<open>indexOf\<close> compares references, so handlers are modelled by any type \<open>'h\<close>
  with its equality.
\<close>

record ('r, 'h) TelephonyService =
  tel_room :: "'r option"
  tel_eventHandlers :: "'h list"

record ('r, 'h) SipService =
  sip_room :: "'r option"
  sip_eventHandlers :: "'h list"

fun indexOf :: "'a list \<Rightarrow> 'a \<Rightarrow> int" where
  \<comment> \<open>the first index holding the element, \<open>-1\<close> when there is none\<close>
  "indexOf [] h = - 1"
| "indexOf (x # xs) h = (if x = h then 0 else (let i = indexOf xs h in if i = - 1 then - 1 else i + 1))"

definition splice1 :: "nat \<Rightarrow> 'a list \<Rightarrow> 'a list" where
  \<comment> \<open>\<^verbatim>\<open>xs.splice(index, 1)\<close>: the array without the element at \<open>index\<close>\<close>
  "splice1 index xs = take index xs @ drop (Suc index) xs"

definition tel_onEvent :: "'h \<Rightarrow> ('r, 'h) TelephonyService \<Rightarrow> ('r, 'h) TelephonyService" where
  "tel_onEvent handler svc = svc\<lparr>tel_eventHandlers := tel_eventHandlers svc @ [handler]\<rparr>"

definition tel_removeEvent :: "'h \<Rightarrow> ('r, 'h) TelephonyService \<Rightarrow> ('r, 'h) TelephonyService" where
  "tel_removeEvent handler svc =
     (let index = indexOf (tel_eventHandlers svc) handler in
      if index > - 1 then svc\<lparr>tel_eventHandlers := splice1 (nat index) (tel_eventHandlers svc)\<rparr>
      else svc)"

definition sip_onEvent :: "'h \<Rightarrow> ('r, 'h) SipService \<Rightarrow> ('r, 'h) SipService" where
  "sip_onEvent handler svc = svc\<lparr>sip_eventHandlers := sip_eventHandlers svc @ [handler]\<rparr>"

definition sip_removeEvent :: "'h \<Rightarrow> ('r, 'h) SipService \<Rightarrow> ('r, 'h) SipService" where
  "sip_removeEvent handler svc =
     (let index = indexOf (sip_eventHandlers svc) handler in
      if index > - 1 then svc\<lparr>sip_eventHandlers := splice1 (nat index) (sip_eventHandlers svc)\<rparr>
      else svc)"

section \<open>Application state (types/index.ts, App.tsx)\<close>

text \<open>A \<^verbatim>\<open>Date\<close> is kept by what it was built from: a timestamp string or a clock value.\<close>

datatype date = DateOfString string | DateOfMillis nat

datatype agent_status = Online | Offline | Busy

datatype worker_status = Stopped | Starting | Running | Stopping

record Agent =
  agent_id :: string
  agent_name :: string
  agent_status :: agent_status
  agent_avatar :: "string option"
  agent_lastActive :: date
  agent_description :: "string option"
  agent_autoReceiveCalls :: "bool option"
  agent_assignedPhoneNumber :: "string option"
  agent_workerStatus :: "worker_status option"

datatype sender = SenderAgent | SenderCaller

datatype message_type = TextMessage | AudioMessage

record Message =
  message_id :: string
  message_content :: string
  message_timestamp :: date
  message_sender :: sender
  message_type :: message_type

datatype session_status = SessionActive | SessionEnded | SessionPaused

record CallerInfo =
  caller_name :: "string option"
  caller_phone :: "string option"

record ChatSession =
  session_id :: string
  session_agentId :: string
  session_messages :: "Message list"
  session_status :: session_status
  session_startTime :: date
  session_endTime :: "date option"
  session_callerInfo :: "CallerInfo option"

record FileItem =
  file_id :: string
  file_name :: string
  file_size :: nat
  file_type :: string
  file_uploadDate :: date
  file_url :: "string option"

datatype call_status = CallConnecting | CallConnected | CallEnded | CallFailed

record VoiceCall =
  call_id :: string
  call_agentId :: string
  call_status :: call_status
  call_startTime :: date
  call_endTime :: "date option"
  call_duration :: "nat option"
  call_callerInfo :: "CallerInfo option"

record AppState =
  agents :: "Agent list"
  selectedAgent :: "Agent option"
  currentSession :: "ChatSession option"
  currentCall :: "VoiceCall option"
  context' :: string
  files :: "FileItem list"
  isContextUpdating :: bool

text \<open>
  \<^verbatim>\<open>handleContextUpdate\<close> calls \<^verbatim>\<open>setAppState\<close> twice with an updater of the previous
  state, one second apart: the first raises the flag, the second stores the context and
  lowers the flag.
\<close>

definition contextUpdate_begin :: "AppState \<Rightarrow> AppState" where
  "contextUpdate_begin prev = prev\<lparr>isContextUpdating := True\<rparr>"

definition contextUpdate_finish :: "string \<Rightarrow> AppState \<Rightarrow> AppState" where
  "contextUpdate_finish newContext prev = prev\<lparr>context' := newContext, isContextUpdating := False\<rparr>"

definition handleContextUpdate :: "string \<Rightarrow> AppState \<Rightarrow> AppState" where
  "handleContextUpdate newContext st = contextUpdate_finish newContext (contextUpdate_begin st)"

section \<open>The stateful-agent API client (lettaApi.ts)\<close>

record LettaAgent =
  letta_id :: string
  letta_name :: string
  letta_persona :: string
  letta_human :: string
  letta_created_at :: string
  letta_updated_at :: string
  letta_memory :: "(string \<times> string) option"

text \<open>
  A request sent through axios resolves with the response data or is rejected. A rejection
  is an axios error, which carries \<^verbatim>\<open>error.response?.data?.message\<close> and its own
  \<^verbatim>\<open>error.message\<close>, or some other thrown value. The server is a state \<open>'s\<close> that each
  request reads and changes; its two calls are the fields of \<open>letta_server\<close>.
\<close>

datatype http_error = AxiosError jsval string | OtherError

record 's letta_server =
  http_get_agents :: "'s \<Rightarrow> (http_error + LettaAgent list) \<times> 's"
  http_delete_agent :: "string \<Rightarrow> 's \<Rightarrow> (http_error + unit) \<times> 's"

text \<open>
  A thrown \<^verbatim>\<open>Error\<close> is kept by its message: \<open>Inl message\<close>. The \<^verbatim>\<open>catch\<close> of each call
  renders \<^verbatim>\<open>error.response?.data?.message || error.message\<close> in a template literal; when
  that conversion throws, the \<^verbatim>\<open>TypeError\<close> leaves the call in place of the new error.
\<close>

definition getAgents :: "'s letta_server \<Rightarrow> 's \<Rightarrow> (string + LettaAgent list) \<times> 's" where
  "getAgents srv s =
     (case http_get_agents srv s of
        (Inr data, s') \<Rightarrow> (Inr data, s')
      | (Inl (AxiosError m msg), s') \<Rightarrow>
          (case toString (js_or m (JStr msg)) of
             Some rendered \<Rightarrow> (Inl (''Failed to fetch agents: '' @ rendered), s')
           | None \<Rightarrow> (Inl cannot_convert, s'))
      | (Inl OtherError, s') \<Rightarrow> (Inl ''Failed to fetch agents: Unknown error'', s'))"

definition deleteAgent :: "'s letta_server \<Rightarrow> string \<Rightarrow> 's \<Rightarrow> (string + unit) \<times> 's" where
  "deleteAgent srv agentId s =
     (case http_delete_agent srv agentId s of
        (Inr u, s') \<Rightarrow> (Inr (), s')
      | (Inl (AxiosError m msg), s') \<Rightarrow>
          (case toString (js_or m (JStr msg)) of
             Some rendered \<Rightarrow> (Inl (''Failed to delete agent: '' @ rendered), s')
           | None \<Rightarrow> (Inl cannot_convert, s'))
      | (Inl OtherError, s') \<Rightarrow> (Inl ''Failed to delete agent: Unknown error'', s'))"

record deletion_result =
  res_id :: string
  res_success :: bool
  res_error :: "string option"

fun delete_each :: "'s letta_server \<Rightarrow> LettaAgent list \<Rightarrow> 's \<Rightarrow> deletion_result list \<times> 's" where
  \<comment> \<open>the \<^verbatim>\<open>for (const agent of agents)\<close> loop: one deletion after the other, each failure
      caught and recorded\<close>
  "delete_each srv [] s = ([], s)"
| "delete_each srv (agent # rest) s =
     (case deleteAgent srv (letta_id agent) s of
        (Inr u, s') \<Rightarrow>
          (case delete_each srv rest s' of (results, s'') \<Rightarrow>
             (\<lparr>res_id = letta_id agent, res_success = True, res_error = None\<rparr> # results, s''))
      | (Inl err, s') \<Rightarrow>
          (case delete_each srv rest s' of (results, s'') \<Rightarrow>
             (\<lparr>res_id = letta_id agent, res_success = False, res_error = Some err\<rparr> # results, s'')))"

definition deleteAll_catch :: "string \<Rightarrow> string" where
  \<comment> \<open>the outer \<^verbatim>\<open>catch\<close> of \<^verbatim>\<open>deleteAllAgents\<close>, on an \<^verbatim>\<open>Error\<close> that is not an axios error:
      the message it throws\<close>
  "deleteAll_catch message =
     (if str_includes message ''agent deletions failed'' then message
      else ''Failed to delete all agents: '' @ message)"

definition deleteAllAgents :: "'s letta_server \<Rightarrow> 's \<Rightarrow> (string + unit) \<times> 's" where
  "deleteAllAgents srv s =
     (case getAgents srv s of
        (Inl message, s1) \<Rightarrow> (Inl (deleteAll_catch message), s1)
      | (Inr agentList, s1) \<Rightarrow>
          if length agentList = 0 then (Inr (), s1)
          else (case delete_each srv agentList s1 of (results, s2) \<Rightarrow>
                  (let successCount = length (filter res_success results);
                       failCount = length (filter (\<lambda>r. \<not> res_success r) results)
                   in if failCount > 0 \<and> successCount = 0
                      then (Inl (deleteAll_catch (''All '' @ show_nat failCount @ '' agent deletions failed'')), s2)
                      else (Inr (), s2))))"

section \<open>The agent list of the control panel (App.tsx)\<close>

definition split_first :: "string \<Rightarrow> string" where
  \<comment> \<open>\<^verbatim>\<open>s.split('.')[0]\<close>\<close>
  "split_first s = takeWhile (\<lambda>c. c \<noteq> CHR ''.'') s"

definition formatAgent :: "LettaAgent \<Rightarrow> Agent" where
  "formatAgent agent =
     \<lparr>agent_id = letta_id agent,
      agent_name = letta_name agent,
      agent_status = Online,
      agent_avatar = None,
      agent_lastActive = DateOfString (letta_updated_at agent),
      agent_description =
        Some (if letta_persona agent \<noteq> [] then split_first (letta_persona agent) else ''Letta AI Agent''),
      agent_autoReceiveCalls = Some True,
      agent_assignedPhoneNumber = None,
      agent_workerStatus = None\<rparr>"

definition formattedAgents :: "LettaAgent list \<Rightarrow> Agent list" where
  "formattedAgents lettaAgents =
     map formatAgent (filter (\<lambda>agent. \<not> endsWith (letta_name agent) ''sleeptime'') lettaAgents)"

definition loadLettaAgents :: "'s letta_server \<Rightarrow> AppState \<Rightarrow> 's \<Rightarrow> AppState \<times> 's" where
  "loadLettaAgents srv prev s =
     (case getAgents srv s of
        (Inr lettaAgents, s') \<Rightarrow> (prev\<lparr>agents := formattedAgents lettaAgents\<rparr>, s')
      | (Inl err, s') \<Rightarrow> (prev, s'))"

datatype alert = AlertAllDeleted | AlertRemain nat | AlertFailed string

definition handleDeleteAllAgents ::
  "bool \<Rightarrow> 's letta_server \<Rightarrow> AppState \<Rightarrow> 's \<Rightarrow> AppState \<times> 's \<times> alert option" where
  \<comment> \<open>the first argument is the answer to \<^verbatim>\<open>window.confirm\<close>\<close>
  "handleDeleteAllAgents confirmDelete srv prev s =
     (if \<not> confirmDelete then (prev, s, None)
      else case deleteAllAgents srv s of
             (Inl message, s1) \<Rightarrow> (prev, s1, Some (AlertFailed message))
           | (Inr u, s1) \<Rightarrow>
               (case getAgents srv s1 of
                  (Inl message, s2) \<Rightarrow> (prev, s2, Some (AlertFailed message))
                | (Inr lettaAgents, s2) \<Rightarrow>
                    (prev\<lparr>agents := formattedAgents lettaAgents, selectedAgent := None, currentSession := None\<rparr>,
                     s2,
                     Some (if length (formattedAgents lettaAgents) = 0 then AlertAllDeleted
                           else AlertRemain (length (formattedAgents lettaAgents))))))"

text \<open>
  Three servers to run the client against: one that keeps its agents in a list and
  deletes by id, answering 404 for an id it does not hold; one that lists its agents and
  refuses every deletion; and one that cannot be reached.
\<close>

definition memory_server :: "(LettaAgent list) letta_server" where
  "memory_server =
     \<lparr>http_get_agents = (\<lambda>s. (Inr s, s)),
      http_delete_agent = (\<lambda>agentId s.
        if agentId \<in> set (map letta_id s)
        then (Inr (), filter (\<lambda>a. letta_id a \<noteq> agentId) s)
        else (Inl (AxiosError JUndefined ''Request failed with status code 404''), s))\<rparr>"

definition readonly_server :: "(LettaAgent list) letta_server" where
  "readonly_server =
     \<lparr>http_get_agents = (\<lambda>s. (Inr s, s)),
      http_delete_agent = (\<lambda>agentId s. (Inl (AxiosError (JStr ''read only'') ''Request failed with status code 403''), s))\<rparr>"

definition offline_server :: "unit letta_server" where
  "offline_server =
     \<lparr>http_get_agents = (\<lambda>s. (Inl (AxiosError JUndefined ''Network Error''), s)),
      http_delete_agent = (\<lambda>agentId s. (Inl (AxiosError JUndefined ''Network Error''), s))\<rparr>"

definition demo_agent :: "string \<Rightarrow> string \<Rightarrow> LettaAgent" where
  "demo_agent i n =
     \<lparr>letta_id = i, letta_name = n, letta_persona = ''You answer calls. Be brief.'',
      letta_human = ''caller'', letta_created_at = ''2024-01-01T00:00:00Z'',
      letta_updated_at = ''2024-01-02T00:00:00Z'', letta_memory = None\<rparr>"

definition initial_state :: AppState where
  "initial_state =
     \<lparr>agents = [], selectedAgent = None, currentSession = None, currentCall = None,
      context' = ''You are a helpful customer support agent.'', files = [],
      isContextUpdating = False\<rparr>"

section \<open>The companion process (the express server listed in SIP_SETUP.md)\<close>

text \<open>
  The process is given by its environment variables and by the two paths it builds with
  \<^verbatim>\<open>path.join\<close> from its own directory. Writes to the console are left out of the model;
  every other effect of a handler is listed in the order the handler performs it.
\<close>

record server =
  process_env :: "string \<Rightarrow> string option"
  agentScript :: string
  logsDir :: string

definition getenv :: "server \<Rightarrow> string \<Rightarrow> jsval" where
  "getenv srv k = (case process_env srv k of None \<Rightarrow> JUndefined | Some v \<Rightarrow> JStr v)"

definition LIVEKIT_API_KEY :: "server \<Rightarrow> jsval" where
  "LIVEKIT_API_KEY srv = js_or (getenv srv ''LIVEKIT_API_KEY'') (getenv srv ''REACT_APP_LIVEKIT_API_KEY'')"

definition LIVEKIT_API_SECRET :: "server \<Rightarrow> jsval" where
  "LIVEKIT_API_SECRET srv =
     js_or (getenv srv ''LIVEKIT_API_SECRET'') (getenv srv ''REACT_APP_LIVEKIT_API_SECRET'')"

definition LIVEKIT_WS_URL :: "server \<Rightarrow> jsval" where
  "LIVEKIT_WS_URL srv = js_or (getenv srv ''LIVEKIT_WS_URL'') (getenv srv ''REACT_APP_LIVEKIT_URL'')"

record response =
  status :: nat
  json :: "(string \<times> jsval) list"

subsection \<open>POST /api/livekit-token\<close>

text \<open>
  The token itself is made by the imported library: \<open>toJwt\<close> stands for building an
  \<^verbatim>\<open>AccessToken\<close> from key, secret and options, adding the grant and calling
  \<^verbatim>\<open>at.toJwt()\<close>. It returns some value or throws an error with a message.
\<close>

record token_options =
  identity :: jsval
  ttl :: string

record video_grant =
  roomJoin :: bool
  room :: jsval
  canPublish :: bool
  canSubscribe :: bool
  canPublishData :: bool

datatype jwt_result = JwtValue jsval | JwtThrows string

type_synonym token_library = "jsval \<Rightarrow> jsval \<Rightarrow> token_options \<Rightarrow> video_grant \<Rightarrow> jwt_result"

definition generateLiveKitToken ::
  "token_library \<Rightarrow> server \<Rightarrow> jsval \<Rightarrow> jsval \<Rightarrow> jsval \<Rightarrow> string + string" where
  "generateLiveKitToken toJwt srv roomName participantName phoneNumber =
     (if \<not> truthy (LIVEKIT_API_KEY srv) \<or> \<not> truthy (LIVEKIT_API_SECRET srv)
      then Inl ''LiveKit API credentials not configured''
      else case toJwt (LIVEKIT_API_KEY srv) (LIVEKIT_API_SECRET srv)
                  \<lparr>identity = participantName, ttl = ''10m''\<rparr>
                  \<lparr>roomJoin = True, room = roomName, canPublish = True, canSubscribe = True,
                   canPublishData = True\<rparr> of
             JwtThrows message \<Rightarrow> Inl message
           | JwtValue (JStr jwt) \<Rightarrow>
               if length jwt > 0 then Inr jwt else Inl ''Failed to generate valid JWT token''
           | JwtValue other \<Rightarrow> Inl ''Failed to generate valid JWT token'')"

record token_request =
  req_roomName :: jsval
  req_participantName :: jsval
  req_phoneNumber :: jsval

text \<open>
  The body of a request is \<open>None\<close> when \<^verbatim>\<open>req.body\<close> is undefined (no body was parsed), and
  the record of its fields otherwise, a field that is absent being \<open>JUndefined\<close>.
  Destructuring an undefined body throws inside the \<^verbatim>\<open>try\<close> of the handler.
\<close>

definition cannot_destructure :: string where
  \<comment> \<open>the message of the \<^verbatim>\<open>TypeError\<close> of destructuring an undefined \<^verbatim>\<open>req.body\<close>\<close>
  "cannot_destructure = ''Cannot destructure property 'roomName' of 'req.body' as it is undefined.''"

definition post_livekit_token :: "token_library \<Rightarrow> server \<Rightarrow> token_request option \<Rightarrow> response" where
  "post_livekit_token toJwt srv body =
     (case body of
        None \<Rightarrow>
          \<lparr>status = 500,
           json = [(''error'', JStr ''Failed to generate token''), (''details'', JStr cannot_destructure)]\<rparr>
      | Some req \<Rightarrow>
         (let roomName = req_roomName req; participantName = req_participantName req;
              phoneNumber = req_phoneNumber req in
          if \<not> truthy roomName \<or> \<not> truthy participantName
          then \<lparr>status = 400, json = [(''error'', JStr ''roomName and participantName are required'')]\<rparr>
          else case generateLiveKitToken toJwt srv roomName participantName phoneNumber of
                 Inr token \<Rightarrow>
                   \<lparr>status = 200,
                    json = [(''token'', JStr token), (''wsUrl'', LIVEKIT_WS_URL srv),
                            (''roomName'', roomName), (''participantName'', participantName)]\<rparr>
               | Inl message \<Rightarrow>
                   \<lparr>status = 500,
                    json = [(''error'', JStr ''Failed to generate token''), (''details'', JStr message)]\<rparr>))"

subsection \<open>POST /api/make-call\<close>

datatype proc = AgentProcess | DispatchProcess

text \<open>
  The effects of the handler. \<open>CreateRoom\<close> carries the room name, the empty timeout, the
  participant limit and the two metadata fields; \<open>Spawn\<close> carries the command, its
  arguments and the variables set on top of \<^verbatim>\<open>process.env\<close>. \<open>DeleteRoom\<close> is the room
  service's call that removes a room. \<open>Crash\<close> is the end of the whole process by an
  \<^verbatim>\<open>error\<close> event that has no listener: the handler attaches none to the log stream nor
  to the dial command.
\<close>

datatype effect =
    CreateRoom string nat nat jsval string
  | DeleteRoom string
  | Mkdir string
  | OpenLog string string
  | WriteLog string
  | Spawn proc string "string list" "(string \<times> jsval) list"
  | SetTimeout nat
  | Kill proc
  | Respond response
  | Crash

text \<open>What the agent process emits while the handler runs, and what its listeners do.\<close>

datatype agent_event =
    AgentStdout string
  | AgentStderr string
  | AgentError string string
  | AgentClose "int option" string

fun agent_listener :: "agent_event \<Rightarrow> effect list" where
  "agent_listener (AgentStdout text) = [WriteLog (''[STDOUT] '' @ text)]"
| "agent_listener (AgentStderr text) = [WriteLog (''[STDERR] '' @ text)]"
| "agent_listener (AgentError message stack) =
     [WriteLog (''[ERROR] Failed to start agent process: '' @ message @ ''\<newline>''),
      WriteLog (''[ERROR] Stack trace: '' @ stack @ ''\<newline>'')]"
| "agent_listener (AgentClose code stamp) =
     [WriteLog ''\<newline>=== Agent Process Exited ===\<newline>'',
      WriteLog (''Exit code: '' @ show_code code @ ''\<newline>''),
      WriteLog (''Timestamp: '' @ stamp @ ''\<newline>'')]"

text \<open>
  The dial command ends with a \<^verbatim>\<open>close\<close> event, which carries the exit code (\<^verbatim>\<open>null\<close> when
  a signal ended it) after the collected standard output and error output; or it never
  emits one; or it cannot be started and emits \<^verbatim>\<open>error\<close> instead.
\<close>

datatype dial_outcome = DialClosed "int option" string string | DialNeverCloses | DialFailsToStart

text \<open>
  Everything outside the handler that one run of it meets: the clock, and how each call
  it makes turns out. \<^verbatim>\<open>createWriteStream\<close> and \<^verbatim>\<open>spawn\<close> return or throw (as they do,
  for one, on a path or an argument that holds a NUL character); the log stream then
  opens its file or emits \<^verbatim>\<open>error\<close>.
\<close>

record call_env =
  now_room :: nat
  createRoom_resolves :: bool
  logs_dir_exists :: bool
  mkdir_succeeds :: bool
  log_stream_created :: bool
  agent_spawn_returns :: bool
  log_stream_opens :: bool
  iso_file :: string
  iso_header :: string
  agent_events_wait :: "agent_event list"
  now_dial :: nat
  agent_events_dial :: "agent_event list"
  dial :: dial_outcome

record call_request =
  req_to :: jsval
  req_agentId :: jsval

definition failed_to_make_call :: effect where
  \<comment> \<open>the \<^verbatim>\<open>catch\<close> of the handler\<close>
  "failed_to_make_call = Respond \<lparr>status = 500, json = [(''error'', JStr ''Failed to make call'')]\<rparr>"

definition log_timestamp :: "string \<Rightarrow> string" where
  \<comment> \<open>\<^verbatim>\<open>iso.replace(/:/g, '-').slice(0, -5)\<close>\<close>
  "log_timestamp stamp =
     (let replaced = map (\<lambda>c. if c = CHR '':'' then CHR ''-'' else c) stamp
      in take (length replaced - 5) replaced)"

definition start_log :: "server \<Rightarrow> call_env \<Rightarrow> string \<Rightarrow> string \<Rightarrow> effect list" where
  \<comment> \<open>the last argument is \<^verbatim>\<open>agentId\<close> as the template literal renders it\<close>
  "start_log srv env roomName agentIdText =
     [OpenLog (logsDir srv) (''agent-'' @ roomName @ ''-'' @ log_timestamp (iso_file env) @ ''.log''),
      WriteLog ''=== Agent Process Starting ===\<newline>'',
      WriteLog (''Timestamp: '' @ iso_header env @ ''\<newline>''),
      WriteLog (''Room: '' @ roomName @ ''\<newline>''),
      WriteLog (''Agent ID: '' @ agentIdText @ ''\<newline>''),
      WriteLog (''Command: conda run -n letta python '' @ agentScript srv @ '' connect --room ''
                @ roomName @ ''\<newline>\<newline>'')]"

definition openaiApiKey :: "server \<Rightarrow> jsval" where
  "openaiApiKey srv =
     js_or (js_or (getenv srv ''OPENAI_API_KEY'') (getenv srv ''REACT_APP_OPENAI_API_KEY'')) (JStr [])"

definition spawn_agent :: "server \<Rightarrow> string \<Rightarrow> jsval \<Rightarrow> effect" where
  "spawn_agent srv roomName agentId =
     Spawn AgentProcess ''conda''
       [''run'', ''-n'', ''letta'', ''python'', agentScript srv, ''connect'', ''--room'', roomName]
       [(''LIVEKIT_URL'', LIVEKIT_WS_URL srv),
        (''LIVEKIT_API_KEY'', LIVEKIT_API_KEY srv),
        (''LIVEKIT_API_SECRET'', LIVEKIT_API_SECRET srv),
        (''LIVEKIT_SIP_TRUNK_ID'', JStr ''ST_LgQdMYv7NnfA''),
        (''LETTA_AGENT_ID'', agentId),
        (''LETTA_API_KEY'', openaiApiKey srv),
        (''OPENAI_API_KEY'', openaiApiKey srv),
        (''PYTHONUNBUFFERED'', JStr ''1''),
        (''LIVEKIT_LOG_LEVEL'', JStr ''debug'')]"

definition spawn_dispatch :: "server \<Rightarrow> call_env \<Rightarrow> string \<Rightarrow> string \<Rightarrow> effect" where
  "spawn_dispatch srv env roomName phoneNumber =
     Spawn DispatchProcess ''lk''
       [''sip'', ''participant'', ''create'',
        ''--room'', roomName,
        ''--trunk'', ''ST_LgQdMYv7NnfA'',
        ''--call'', phoneNumber,
        ''--identity'', ''sip-'' @ show_nat (now_dial env)]
       [(''LIVEKIT_URL'', LIVEKIT_WS_URL srv),
        (''LIVEKIT_API_KEY'', LIVEKIT_API_KEY srv),
        (''LIVEKIT_API_SECRET'', LIVEKIT_API_SECRET srv)]"

definition on_dispatch_close :: "string \<Rightarrow> string \<Rightarrow> jsval \<Rightarrow> int option \<Rightarrow> string \<Rightarrow> string \<Rightarrow> effect list" where
  \<comment> \<open>the \<^verbatim>\<open>close\<close> listener of the dial command\<close>
  "on_dispatch_close roomName phoneNumber agentId code output error =
     (if code = Some 0
      then [Respond \<lparr>status = 200,
                     json = [(''roomName'', JStr roomName), (''status'', JStr ''dispatched''),
                             (''phoneNumber'', JStr phoneNumber), (''agentId'', agentId)]\<rparr>]
      else [Kill AgentProcess,
            Respond \<lparr>status = 500,
                     json = [(''error'', JStr (''SIP call failed: ''
                               @ (if error \<noteq> [] then error else ''Unknown error'')))]\<rparr>])"

definition timer_callback :: "server \<Rightarrow> call_env \<Rightarrow> string \<Rightarrow> string \<Rightarrow> jsval \<Rightarrow> effect list" where
  \<comment> \<open>the function handed to \<^verbatim>\<open>setTimeout\<close>, with what follows from it\<close>
  "timer_callback srv env roomName phoneNumber agentId =
     spawn_dispatch srv env roomName phoneNumber
     # concat (map agent_listener (agent_events_dial env))
     @ (case dial env of
          DialClosed code output error \<Rightarrow> on_dispatch_close roomName phoneNumber agentId code output error
        | DialNeverCloses \<Rightarrow> []
        | DialFailsToStart \<Rightarrow> [Crash])"

definition make_call :: "server \<Rightarrow> call_env \<Rightarrow> call_request option \<Rightarrow> effect list" where
  "make_call srv env body =
     (case body of
        None \<Rightarrow> [failed_to_make_call]
      | Some req \<Rightarrow>
         (let to = req_to req; agentId = req_agentId req in
          if \<not> truthy to \<or> \<not> truthy agentId
          then [Respond \<lparr>status = 400, json = [(''error'', JStr ''Phone number and agentId are required'')]\<rparr>]
          else case to of
            JStr t \<Rightarrow>
              (let phoneNumber = (if startsWith t ''+'' then t else ''+1'' @ t) in
               case toString agentId of
                 None \<Rightarrow> [failed_to_make_call]
               | Some agentIdText \<Rightarrow>
                  (let roomName = ''outbound-'' @ agentIdText @ ''-'' @ show_nat (now_room env) in
                   if \<not> truthy (LIVEKIT_API_KEY srv) \<or> \<not> truthy (LIVEKIT_API_SECRET srv)
                   then [Respond \<lparr>status = 503,
                                  json = [(''error'', JStr ''LiveKit not configured - demo mode only'')]\<rparr>]
                   else CreateRoom roomName 300 2 agentId phoneNumber #
                     (if \<not> createRoom_resolves env then [failed_to_make_call]
                      else if \<not> logs_dir_exists env \<and> \<not> mkdir_succeeds env
                      then [Mkdir (logsDir srv), failed_to_make_call]
                      else (if \<not> logs_dir_exists env then [Mkdir (logsDir srv)] else [])
                         @ (if \<not> log_stream_created env then [failed_to_make_call]
                            else start_log srv env roomName agentIdText
                               @ (if \<not> agent_spawn_returns env then [failed_to_make_call]
                                  else [spawn_agent srv roomName agentId, SetTimeout 2000]
                                     @ (if \<not> log_stream_opens env then [Crash]
                                        else concat (map agent_listener (agent_events_wait env))
                                             @ timer_callback srv env roomName phoneNumber agentId))))))
          | other \<Rightarrow> [failed_to_make_call]))"


fun is_log_effect :: "effect \<Rightarrow> bool" where
  "is_log_effect (Mkdir d) = True"
| "is_log_effect (OpenLog d f) = True"
| "is_log_effect (WriteLog l) = True"
| "is_log_effect e = False"

definition steps :: "effect list \<Rightarrow> effect list" where
  \<comment> \<open>a run without its writes to the log directory\<close>
  "steps es = filter (\<lambda>e. \<not> is_log_effect e) es"

text \<open>A configured process, a request and a run in which nothing outside the handler fails.\<close>

definition demo_server :: server where
  "demo_server =
     \<lparr>process_env = map_of [(''LIVEKIT_API_KEY'', ''key''), (''LIVEKIT_API_SECRET'', ''secret''),
                             (''LIVEKIT_WS_URL'', ''wss://lk'')],
      agentScript = ''/app/livekit-agent.py'',
      logsDir = ''/app/server/logs''\<rparr>"

definition demo_env :: call_env where
  "demo_env =
     \<lparr>now_room = 1700000000000, createRoom_resolves = True, logs_dir_exists = True,
      mkdir_succeeds = True, log_stream_created = True, agent_spawn_returns = True,
      log_stream_opens = True, iso_file = ''2023-11-14T22:13:20.000Z'',
      iso_header = ''2023-11-14T22:13:20.001Z'', agent_events_wait = [AgentStdout ''ready''],
      now_dial = 1700000002000, agent_events_dial = [], dial = DialClosed (Some 0) [] []\<rparr>"

definition demo_toJwt :: token_library where
  \<comment> \<open>a token library that answers with a string naming the identity and the room\<close>
  "demo_toJwt key secret opts grant =
     (case (toString (identity opts), toString (room grant)) of
        (Some i, Some r) \<Rightarrow> JwtValue (JStr (''jwt.'' @ i @ ''.'' @ r))
      | other \<Rightarrow> JwtThrows cannot_convert)"

definition demo_request :: call_request where
  "demo_request = \<lparr>req_to = JStr ''5551234567'', req_agentId = JStr ''agent-1''\<rparr>"

section \<open>Phone number formatting\<close>

lemma ten_elems: "length ds = 10 \<Longrightarrow> \<exists>a b c d e f g h i j. ds = [a, b, c, d, e, f, g, h, i, j]"
  by (auto simp: length_Suc_conv numeral_eq_Suc)

lemma eleven_elems: "length ds = 11 \<Longrightarrow> \<exists>k a b c d e f g h i j. ds = [k, a, b, c, d, e, f, g, h, i, j]"
  by (auto simp: length_Suc_conv numeral_eq_Suc)

text \<open>
  C9. \<open>isValidPhoneNumber\<close> accepts exactly the strings whose digits are ten digits, or
  eleven digits led by 1. On every rejected string \<open>formatPhoneNumber\<close> returns its
  input; on ten digits it returns \<open>(XXX) XXX-XXXX\<close>, on eleven digits led by 1 it returns
  \<open>+1 (XXX) XXX-XXXX\<close>, built from the extracted digits in order.
\<close>

theorem formatPhoneNumber_spec:
  "(isValidPhoneNumber p \<longleftrightarrow>
      (\<exists>a b c d e f g h i j. strip_non_digits p = [a, b, c, d, e, f, g, h, i, j]
         \<or> strip_non_digits p = [CHR ''1'', a, b, c, d, e, f, g, h, i, j]))
   \<and> (\<not> isValidPhoneNumber p \<longrightarrow> formatPhoneNumber p = p)
   \<and> (strip_non_digits p = [a, b, c, d, e, f, g, h, i, j] \<longrightarrow>
        formatPhoneNumber p = ''('' @ [a, b, c] @ '') '' @ [d, e, f] @ ''-'' @ [g, h, i, j])
   \<and> (strip_non_digits p = [CHR ''1'', a, b, c, d, e, f, g, h, i, j] \<longrightarrow>
        formatPhoneNumber p = ''+1 ('' @ [a, b, c] @ '') '' @ [d, e, f] @ ''-'' @ [g, h, i, j])
   \<and> (\<forall>c \<in> set (strip_non_digits p). c \<in> set ''0123456789'')"
proof (intro conjI)
  show "isValidPhoneNumber p \<longleftrightarrow>
      (\<exists>a b c d e f g h i j. strip_non_digits p = [a, b, c, d, e, f, g, h, i, j]
         \<or> strip_non_digits p = [CHR ''1'', a, b, c, d, e, f, g, h, i, j])"
  proof
    assume v: "isValidPhoneNumber p"
    then consider "length (strip_non_digits p) = 10"
      | "length (strip_non_digits p) = 11" "char_at (strip_non_digits p) 0 = Some CHR ''1''"
      by (auto simp: isValidPhoneNumber_def Let_def)
    then show "\<exists>a b c d e f g h i j. strip_non_digits p = [a, b, c, d, e, f, g, h, i, j]
         \<or> strip_non_digits p = [CHR ''1'', a, b, c, d, e, f, g, h, i, j]"
    proof cases
      case 1
      from ten_elems [OF 1] show ?thesis by blast
    next
      case 2
      from eleven_elems [OF 2(1)] obtain k a b c d e f g h i j
        where ds: "strip_non_digits p = [k, a, b, c, d, e, f, g, h, i, j]" by blast
      with 2(2) have "k = CHR ''1''" by (simp add: char_at_def)
      with ds show ?thesis by blast
    qed
  next
    assume "\<exists>a b c d e f g h i j. strip_non_digits p = [a, b, c, d, e, f, g, h, i, j]
         \<or> strip_non_digits p = [CHR ''1'', a, b, c, d, e, f, g, h, i, j]"
    then show "isValidPhoneNumber p"
      by (auto simp: isValidPhoneNumber_def Let_def char_at_def)
  qed
next
  show "\<not> isValidPhoneNumber p \<longrightarrow> formatPhoneNumber p = p"
    by (auto simp: isValidPhoneNumber_def formatPhoneNumber_def Let_def)
next
  show "strip_non_digits p = [a, b, c, d, e, f, g, h, i, j] \<longrightarrow>
        formatPhoneNumber p = ''('' @ [a, b, c] @ '') '' @ [d, e, f] @ ''-'' @ [g, h, i, j]"
    by (simp add: formatPhoneNumber_def Let_def slice_def slice_from_def)
next
  show "strip_non_digits p = [CHR ''1'', a, b, c, d, e, f, g, h, i, j] \<longrightarrow>
        formatPhoneNumber p = ''+1 ('' @ [a, b, c] @ '') '' @ [d, e, f] @ ''-'' @ [g, h, i, j]"
    by (simp add: formatPhoneNumber_def Let_def slice_def slice_from_def char_at_def)
next
  show "\<forall>c \<in> set (strip_non_digits p). c \<in> set ''0123456789''"
    by (simp add: strip_non_digits_def is_digit_def)
qed

theorem formatPhoneNumber_spec_witness:
  "formatPhoneNumber ''555.123.4567'' = ''(555) 123-4567''
   \<and> formatPhoneNumber ''1-555-123-4567'' = ''+1 (555) 123-4567''
   \<and> \<not> isValidPhoneNumber ''call 911'' \<and> formatPhoneNumber ''call 911'' = ''call 911''"
proof -
  have d1: "strip_non_digits ''555.123.4567'' = ''5551234567''"
    by (simp add: strip_non_digits_def is_digit_def)
  have d2: "strip_non_digits ''1-555-123-4567'' = ''15551234567''"
    by (simp add: strip_non_digits_def is_digit_def)
  have d3: "strip_non_digits ''call 911'' = ''911''"
    by (simp add: strip_non_digits_def is_digit_def)
  have n3: "\<not> isValidPhoneNumber ''call 911''"
    using formatPhoneNumber_spec [of "''call 911''"] d3 by simp
  show ?thesis
    using formatPhoneNumber_spec [of "''555.123.4567''" "CHR ''5''" "CHR ''5''" "CHR ''5''" "CHR ''1''" "CHR ''2''" "CHR ''3''" "CHR ''4''" "CHR ''5''" "CHR ''6''" "CHR ''7''"]
      formatPhoneNumber_spec [of "''1-555-123-4567''" "CHR ''5''" "CHR ''5''" "CHR ''5''" "CHR ''1''" "CHR ''2''" "CHR ''3''" "CHR ''4''" "CHR ''5''" "CHR ''6''" "CHR ''7''"]
      formatPhoneNumber_spec [of "''call 911''"] d1 d2 n3
    by simp
qed

section \<open>Event registration round-trips\<close>

lemma indexOf_ge: "- 1 \<le> indexOf xs h"
  by (induction xs) (auto simp: Let_def)

lemma indexOf_absent: "(indexOf xs h = - 1) = (h \<notin> set xs)"
proof (induction xs)
  case Nil
  show ?case by simp
next
  case (Cons x xs)
  have "- 1 \<le> indexOf xs h" by (rule indexOf_ge)
  with Cons show ?case by (auto simp: Let_def)
qed

lemma splice1_indexOf: "h \<in> set xs \<Longrightarrow> splice1 (nat (indexOf xs h)) xs = remove1 h xs"
proof (induction xs)
  case Nil
  then show ?case by simp
next
  case (Cons x xs)
  show ?case
  proof (cases "x = h")
    case True
    then show ?thesis by (simp add: splice1_def)
  next
    case False
    with Cons.prems have mem: "h \<in> set xs" by simp
    then have "indexOf xs h \<noteq> - 1" by (simp add: indexOf_absent)
    moreover have "- 1 \<le> indexOf xs h" by (rule indexOf_ge)
    ultimately have nn: "0 \<le> indexOf xs h" by arith
    then have "nat (indexOf xs h + 1) = Suc (nat (indexOf xs h))" by arith
    with False Cons.IH [OF mem] nn show ?thesis
      by (auto simp: splice1_def Let_def indexOf_absent mem)
  qed
qed

lemma removed_handlers: 
  "(if indexOf xs h > - 1 then splice1 (nat (indexOf xs h)) xs else xs) = remove1 h xs"
proof (cases "h \<in> set xs")
  case True
  then have "indexOf xs h \<noteq> - 1" by (simp add: indexOf_absent)
  moreover have "- 1 \<le> indexOf xs h" by (rule indexOf_ge)
  ultimately have "indexOf xs h > - 1" by arith
  with True show ?thesis by (simp add: splice1_indexOf)
next
  case False
  then have "indexOf xs h = - 1" by (simp add: indexOf_absent)
  with False show ?thesis by (simp add: remove1_idem)
qed

text \<open>
  C7. Registering a handler that is not in the list and removing it again gives back the
  service as it was; removing a handler that is not in the list changes nothing; and in
  every case \<open>removeEvent\<close> takes out the first occurrence of the handler and no other
  element (\<open>remove1\<close>), leaving the room alone. The same holds of \<open>TelephonyService\<close> and
  of \<open>SipService\<close>.
\<close>

theorem event_registration_roundtrip:
  fixes h :: "'h" and t :: "('r, 'h) TelephonyService" and s :: "('q, 'h) SipService"
  shows "(h \<notin> set (tel_eventHandlers t) \<longrightarrow> tel_removeEvent h (tel_onEvent h t) = t \<and> tel_removeEvent h t = t)
   \<and> tel_eventHandlers (tel_removeEvent h t) = remove1 h (tel_eventHandlers t)
   \<and> tel_room (tel_removeEvent h t) = tel_room t
   \<and> (h \<notin> set (sip_eventHandlers s) \<longrightarrow> sip_removeEvent h (sip_onEvent h s) = s \<and> sip_removeEvent h s = s)
   \<and> sip_eventHandlers (sip_removeEvent h s) = remove1 h (sip_eventHandlers s)
   \<and> sip_room (sip_removeEvent h s) = sip_room s"
proof -
  have t1: "tel_removeEvent h u = u\<lparr>tel_eventHandlers := remove1 h (tel_eventHandlers u)\<rparr>" for u :: "('r, 'h) TelephonyService"
    using removed_handlers [of "tel_eventHandlers u" h]
    by (auto simp: tel_removeEvent_def Let_def split: if_splits)
  have s1: "sip_removeEvent h u = u\<lparr>sip_eventHandlers := remove1 h (sip_eventHandlers u)\<rparr>" for u :: "('q, 'h) SipService"
    using removed_handlers [of "sip_eventHandlers u" h]
    by (auto simp: sip_removeEvent_def Let_def split: if_splits)
  show ?thesis
    by (simp add: t1 s1 tel_onEvent_def sip_onEvent_def remove1_append remove1_idem)
qed

theorem event_registration_roundtrip_witness:
  "tel_removeEvent (3::nat) (tel_onEvent 3 \<lparr>tel_room = (None :: unit option), tel_eventHandlers = [1, 2]\<rparr>)
     = \<lparr>tel_room = None, tel_eventHandlers = [1, 2]\<rparr>
   \<and> tel_eventHandlers (tel_removeEvent (1::nat) \<lparr>tel_room = (None :: unit option), tel_eventHandlers = [1, 2, 1]\<rparr>) = [2, 1]
   \<and> sip_removeEvent (3::nat) (sip_onEvent 3 \<lparr>sip_room = (None :: unit option), sip_eventHandlers = [1, 2]\<rparr>)
     = \<lparr>sip_room = None, sip_eventHandlers = [1, 2]\<rparr>"
  using event_registration_roundtrip [of "3::nat" "\<lparr>tel_room = (None :: unit option), tel_eventHandlers = [1, 2]\<rparr>"
      "\<lparr>sip_room = (None :: unit option), sip_eventHandlers = [1, 2]\<rparr>"]
    event_registration_roundtrip [of "1::nat" "\<lparr>tel_room = (None :: unit option), tel_eventHandlers = [1, 2, 1]\<rparr>"
      "\<lparr>sip_room = (None :: unit option), sip_eventHandlers = [1, 2]\<rparr>"]
  by simp

section \<open>The context update and its frame\<close>

text \<open>
  C6. From every application state and for every new context string, the context update
  ends in a state whose context is the new string and whose updating flag is lowered;
  agents, selected agent, current session, current call and files are as before.
\<close>

theorem handleContextUpdate_frame:
  "context' (handleContextUpdate newContext st) = newContext
   \<and> isContextUpdating (handleContextUpdate newContext st) = False
   \<and> agents (handleContextUpdate newContext st) = agents st
   \<and> selectedAgent (handleContextUpdate newContext st) = selectedAgent st
   \<and> currentSession (handleContextUpdate newContext st) = currentSession st
   \<and> currentCall (handleContextUpdate newContext st) = currentCall st
   \<and> files (handleContextUpdate newContext st) = files st"
  by (simp add: handleContextUpdate_def contextUpdate_begin_def contextUpdate_finish_def)

section \<open>Deleting all agents\<close>

lemma str_includes_start: "str_includes (p @ suf) p"
proof (cases "p @ suf")
  case Nil
  then show ?thesis by simp
next
  case (Cons c cs)
  have "startsWith (p @ suf) p" by (simp add: startsWith_def)
  then have "startsWith (c # cs) p" by (simp add: Cons)
  then have "str_includes (c # cs) p" by simp
  then show ?thesis by (simp add: Cons)
qed

lemma str_includes_infix: "str_includes (pre @ p @ suf) p"
proof (induction pre)
  case Nil
  show ?case by (simp add: str_includes_start)
next
  case (Cons c pre)
  then show ?case by simp
qed

lemma deleteAll_catch_controlled:
  "deleteAll_catch (''All '' @ n @ '' agent deletions failed'') = ''All '' @ n @ '' agent deletions failed''"
proof -
  have "str_includes ((''All '' @ n @ '' '') @ ''agent deletions failed'' @ []) ''agent deletions failed''"
    by (rule str_includes_infix)
  then show ?thesis by (simp add: deleteAll_catch_def)
qed

lemma delete_each_Cons:
  "delete_each srv (a # la) s =
     (\<lparr>res_id = letta_id a,
       res_success = (fst (deleteAgent srv (letta_id a) s) = Inr ()),
       res_error = (case fst (deleteAgent srv (letta_id a) s) of Inl e \<Rightarrow> Some e | Inr u \<Rightarrow> None)\<rparr>
      # fst (delete_each srv la (snd (deleteAgent srv (letta_id a) s))),
      snd (delete_each srv la (snd (deleteAgent srv (letta_id a) s))))"
  by (simp split: prod.splits sum.splits)

lemma delete_each_length: "length (fst (delete_each srv la s)) = length la"
proof (induction la arbitrary: s)
  case Nil
  show ?case by simp
next
  case (Cons a la)
  show ?case by (simp only: delete_each_Cons fst_conv list.size Cons.IH)
qed

lemma delete_each_state:
  "snd (delete_each srv la s) = foldl (\<lambda>st a. snd (deleteAgent srv (letta_id a) st)) s la"
proof (induction la arbitrary: s)
  case Nil
  show ?case by simp
next
  case (Cons a la)
  show ?case by (simp only: delete_each_Cons snd_conv foldl_Cons Cons.IH)
qed

lemma delete_each_ids: "map res_id (fst (delete_each srv la s)) = map letta_id la"
proof (induction la arbitrary: s)
  case Nil
  show ?case by simp
next
  case (Cons a la)
  show ?case by (simp only: delete_each_Cons fst_conv list.map Cons.IH) simp
qed

lemma delete_each_nth:
  "i < length la \<Longrightarrow>
   res_success (fst (delete_each srv la s) ! i) =
     (fst (deleteAgent srv (letta_id (la ! i))
            (foldl (\<lambda>st a. snd (deleteAgent srv (letta_id a) st)) s (take i la))) = Inr ())"
proof (induction la arbitrary: s i)
  case Nil
  then show ?case by simp
next
  case (Cons a la)
  show ?case
  proof (cases i)
    case 0
    show ?thesis by (simp only: delete_each_Cons fst_conv 0) simp
  next
    case (Suc j)
    with Cons.prems have j: "j < length la" by simp
    show ?thesis
      by (simp only: delete_each_Cons fst_conv Suc nth_Cons_Suc take_Suc_Cons foldl_Cons Cons.IH [OF j])
  qed
qed


lemma all_fail_iff:
  "(\<forall>r \<in> set (fst (delete_each srv la s)). \<not> res_success r) =
   (\<forall>i < length la. fst (deleteAgent srv (letta_id (la ! i))
            (foldl (\<lambda>st a. snd (deleteAgent srv (letta_id a) st)) s (take i la))) \<noteq> Inr ())"
proof -
  have "(\<forall>r \<in> set (fst (delete_each srv la s)). \<not> res_success r) =
        (\<forall>i < length la. \<not> res_success (fst (delete_each srv la s) ! i))"
    using delete_each_length [of srv la s] by (auto simp: all_set_conv_all_nth)
  then show ?thesis by (simp add: delete_each_nth)
qed

lemma count_all_fail:
  "\<forall>r \<in> set rs. \<not> res_success r \<Longrightarrow>
   length (filter res_success rs) = 0 \<and> length (filter (\<lambda>r. \<not> res_success r) rs) = length rs"
  by (induction rs) auto

lemma count_some_success:
  "\<exists>r \<in> set rs. res_success r \<Longrightarrow> length (filter res_success rs) > 0"
  by (induction rs) auto

text \<open>
  C8, as amended. When the listing fails with a message that does not contain
  \<open>agent deletions failed\<close>, \<open>deleteAllAgents\<close> throws \<open>Failed to delete all agents: \<close>
  followed by that message, and deletes nothing. When the listing succeeds, the agents
  are deleted one after the other in the order listed, each request reaching the server
  as the deletions before it left it; the call throws exactly when there is at least one
  agent and every deletion fails, with the number of failed deletions in the message,
  and returns normally otherwise, also when some deletions failed.
\<close>

theorem deleteAllAgents_outcome:
  "(getAgents srv s = (Inl message, s1) \<and> \<not> str_includes message ''agent deletions failed'' \<longrightarrow>
      deleteAllAgents srv s = (Inl (''Failed to delete all agents: '' @ message), s1))
   \<and> (getAgents srv s = (Inr agentList, s1) \<longrightarrow>
        snd (deleteAllAgents srv s) =
          foldl (\<lambda>st a. snd (deleteAgent srv (letta_id a) st)) s1 agentList
      \<and> fst (deleteAllAgents srv s) =
          (if agentList \<noteq> [] \<and>
              (\<forall>i < length agentList.
                 fst (deleteAgent srv (letta_id (agentList ! i))
                       (foldl (\<lambda>st a. snd (deleteAgent srv (letta_id a) st)) s1 (take i agentList)))
                 \<noteq> Inr ())
           then Inl (''All '' @ show_nat (length agentList) @ '' agent deletions failed'')
           else Inr ()))"
proof (intro conjI impI)
  assume "getAgents srv s = (Inl message, s1) \<and> \<not> str_includes message ''agent deletions failed''"
  then show "deleteAllAgents srv s = (Inl (''Failed to delete all agents: '' @ message), s1)"
    by (simp add: deleteAllAgents_def deleteAll_catch_def)
next
  assume g: "getAgents srv s = (Inr agentList, s1)"
  show "snd (deleteAllAgents srv s) =
          foldl (\<lambda>st a. snd (deleteAgent srv (letta_id a) st)) s1 agentList"
    using delete_each_state [of srv agentList s1]
    by (cases "delete_each srv agentList s1") (auto simp: deleteAllAgents_def g Let_def)
next
  assume g: "getAgents srv s = (Inr agentList, s1)"
  obtain results s2 where de: "delete_each srv agentList s1 = (results, s2)"
    by (cases "delete_each srv agentList s1")
  have len: "length results = length agentList"
    using delete_each_length [of srv agentList s1] by (simp add: de)
  have fails: "(\<forall>r \<in> set results. \<not> res_success r) =
     (\<forall>i < length agentList.
                 fst (deleteAgent srv (letta_id (agentList ! i))
                       (foldl (\<lambda>st a. snd (deleteAgent srv (letta_id a) st)) s1 (take i agentList)))
                 \<noteq> Inr ())"
    using all_fail_iff [of srv agentList s1] by (simp add: de)
  show "fst (deleteAllAgents srv s) =
          (if agentList \<noteq> [] \<and>
              (\<forall>i < length agentList.
                 fst (deleteAgent srv (letta_id (agentList ! i))
                       (foldl (\<lambda>st a. snd (deleteAgent srv (letta_id a) st)) s1 (take i agentList)))
                 \<noteq> Inr ())
           then Inl (''All '' @ show_nat (length agentList) @ '' agent deletions failed'')
           else Inr ())"
  proof (cases "agentList = []")
    case True
    then show ?thesis by (simp add: deleteAllAgents_def g)
  next
    case ne: False
    show ?thesis
    proof (cases "\<forall>r \<in> set results. \<not> res_success r")
      case True
      from count_all_fail [OF True] len
      have c: "length (filter res_success results) = 0"
        "length (filter (\<lambda>r. \<not> res_success r) results) = length agentList" by simp_all
      from True fails have af: "\<forall>i < length agentList.
                 fst (deleteAgent srv (letta_id (agentList ! i))
                       (foldl (\<lambda>st a. snd (deleteAgent srv (letta_id a) st)) s1 (take i agentList)))
                 \<noteq> Inr ()" by simp
      from ne c(2) have fc: "filter (\<lambda>r. \<not> res_success r) results \<noteq> []" by auto
      have "fst (deleteAllAgents srv s) =
              Inl (deleteAll_catch (''All '' @ show_nat (length agentList) @ '' agent deletions failed''))"
        using ne c fc by (simp add: deleteAllAgents_def g de Let_def)
      then have "fst (deleteAllAgents srv s) =
              Inl (''All '' @ show_nat (length agentList) @ '' agent deletions failed'')"
        by (simp only: deleteAll_catch_controlled)
      with ne af show ?thesis by presburger
    next
      case False
      then have "\<exists>r \<in> set results. res_success r" by blast
      from count_some_success [OF this] have c: "length (filter res_success results) > 0" .
      from False fails have naf: "\<not> (\<forall>i < length agentList.
                 fst (deleteAgent srv (letta_id (agentList ! i))
                       (foldl (\<lambda>st a. snd (deleteAgent srv (letta_id a) st)) s1 (take i agentList)))
                 \<noteq> Inr ())" by simp
      have "fst (deleteAllAgents srv s) = Inr ()"
        using ne c by (simp add: deleteAllAgents_def g de Let_def)
      with naf show ?thesis by (simp only: if_False simp_thms)
    qed
  qed
qed


lemma letta_id_demo_agent: "letta_id (demo_agent i n) = i"
  by (simp add: demo_agent_def)

theorem deleteAllAgents_outcome_witness:
  "deleteAllAgents offline_server () =
     (Inl ''Failed to delete all agents: Failed to fetch agents: Network Error'', ())
   \<and> deleteAllAgents memory_server [demo_agent ''a1'' ''first'', demo_agent ''a1'' ''second''] = (Inr (), [])
   \<and> deleteAllAgents readonly_server [demo_agent ''a1'' ''first'', demo_agent ''a2'' ''second'']
       = (Inl ''All 2 agent deletions failed'', [demo_agent ''a1'' ''first'', demo_agent ''a2'' ''second''])"
proof -
  let ?A = "demo_agent ''a1'' ''first''" and ?B = "demo_agent ''a1'' ''second''"
    and ?C = "demo_agent ''a2'' ''second''"
  have g1: "getAgents offline_server () = (Inl ''Failed to fetch agents: Network Error'', ())"
    by (simp add: getAgents_def offline_server_def js_or_def)
  have c1: "\<not> str_includes ''Failed to fetch agents: Network Error'' ''agent deletions failed''"
    by (simp add: startsWith_def)
  have g2: "getAgents memory_server [?A, ?B] = (Inr [?A, ?B], [?A, ?B])"
    by (simp add: getAgents_def memory_server_def)
  have d2: "deleteAgent memory_server ''a1'' [?A, ?B] = (Inr (), [])"
    "fst (deleteAgent memory_server ''a1'' []) \<noteq> Inr ()"
    "snd (deleteAgent memory_server ''a1'' []) = []"
    by (simp_all add: deleteAgent_def memory_server_def letta_id_demo_agent js_or_def)
  have g3: "getAgents readonly_server [?A, ?C] = (Inr [?A, ?C], [?A, ?C])"
    by (simp add: getAgents_def readonly_server_def)
  have d3: "fst (deleteAgent readonly_server i s) \<noteq> Inr ()" "snd (deleteAgent readonly_server i s) = s"
    for i and s :: "LettaAgent list"
    by (simp_all add: deleteAgent_def readonly_server_def js_or_def)
  have n2: "show_nat (Suc (Suc 0)) = ''2''" by (simp add: show_nat.simps digit_char_def)
  have r1: "deleteAllAgents offline_server () =
     (Inl ''Failed to delete all agents: Failed to fetch agents: Network Error'', ())"
    using deleteAllAgents_outcome [of offline_server "()" "''Failed to fetch agents: Network Error''" "()"] g1 c1
    by simp
  have r2: "deleteAllAgents memory_server [?A, ?B] = (Inr (), [])"
    using deleteAllAgents_outcome [where srv = memory_server and s = "[?A, ?B]"
       and ?s1.0 = "[?A, ?B]" and agentList = "[?A, ?B]"] g2
    by (simp add: prod_eq_iff letta_id_demo_agent d2 All_less_Suc)
  have r3: "deleteAllAgents readonly_server [?A, ?C] = (Inl ''All 2 agent deletions failed'', [?A, ?C])"
    using deleteAllAgents_outcome [where srv = readonly_server and s = "[?A, ?C]"
       and ?s1.0 = "[?A, ?C]" and agentList = "[?A, ?C]"] g3 n2
    by (simp add: prod_eq_iff d3)
  from r1 r2 r3 show ?thesis by simp
qed

text \<open>
  C8 as stated fails: against a server that cannot be reached no agent is listed and no
  deletion is tried, and \<open>deleteAllAgents\<close> throws.
\<close>

theorem deleteAllAgents_listing_failure:
  "fst (http_get_agents offline_server ()) = Inl (AxiosError JUndefined ''Network Error'')
   \<and> deleteAllAgents offline_server () =
     (Inl ''Failed to delete all agents: Failed to fetch agents: Network Error'', ())"
  by (simp add: deleteAllAgents_def getAgents_def offline_server_def js_or_def deleteAll_catch_def startsWith_def)

section \<open>The agent list shown\<close>

lemma endsWith_suffix: "endsWith s p = suffix p s"
proof
  assume "endsWith s p"
  then have "s = take (length s - length p) s @ p" 
    by (metis append_take_drop_id endsWith_def)
  then show "suffix p s" by (metis suffixI)
next
  assume "suffix p s"
  then obtain q where "s = q @ p" by (auto simp: suffix_def)
  then show "endsWith s p" by (simp add: endsWith_def)
qed

lemma formattedAgents_shown:
  "(\<forall>a \<in> set (formattedAgents la).
       \<not> suffix ''sleeptime'' (agent_name a) \<and> agent_status a = Online \<and> agent_autoReceiveCalls a = Some True)
   \<and> (\<forall>l \<in> set la. suffix ''sleeptime'' (letta_name l) \<longrightarrow>
         (\<forall>a \<in> set (formattedAgents la). agent_name a \<noteq> letta_name l))
   \<and> (\<forall>l \<in> set la. \<not> suffix ''sleeptime'' (letta_name l) \<longrightarrow>
         (\<exists>a \<in> set (formattedAgents la).
            agent_id a = letta_id l \<and> agent_name a = letta_name l \<and> agent_status a = Online
            \<and> agent_autoReceiveCalls a = Some True))"
  by (auto simp: formattedAgents_def formatAgent_def endsWith_suffix)

text \<open>
  C10. When the agents are loaded at startup, and when the list is refreshed after a
  confirmed delete-all that did not throw, the list shown is made from the agents the
  server returned: no shown agent has a name ending in \<open>sleeptime\<close>, every shown agent
  is online with \<open>autoReceiveCalls\<close> true, no returned agent whose name ends in
  \<open>sleeptime\<close> is shown, and every other returned agent is shown under its id and name.
\<close>

theorem sleeptime_agents_hidden:
  "(getAgents srv s = (Inr lettaAgents, s1) \<longrightarrow>
      agents (fst (loadLettaAgents srv prev s)) = formattedAgents lettaAgents)
   \<and> (deleteAllAgents srv s = (Inr (), s1) \<and> getAgents srv s1 = (Inr lettaAgents, s2) \<longrightarrow>
      agents (fst (handleDeleteAllAgents True srv prev s)) = formattedAgents lettaAgents)
   \<and> (\<forall>a \<in> set (formattedAgents lettaAgents).
       \<not> suffix ''sleeptime'' (agent_name a) \<and> agent_status a = Online \<and> agent_autoReceiveCalls a = Some True)
   \<and> (\<forall>l \<in> set lettaAgents. suffix ''sleeptime'' (letta_name l) \<longrightarrow>
         (\<forall>a \<in> set (formattedAgents lettaAgents). agent_name a \<noteq> letta_name l))
   \<and> (\<forall>l \<in> set lettaAgents. \<not> suffix ''sleeptime'' (letta_name l) \<longrightarrow>
         (\<exists>a \<in> set (formattedAgents lettaAgents).
            agent_id a = letta_id l \<and> agent_name a = letta_name l \<and> agent_status a = Online
            \<and> agent_autoReceiveCalls a = Some True))"
proof -
  have 1: "getAgents srv s = (Inr lettaAgents, s1) \<longrightarrow>
      agents (fst (loadLettaAgents srv prev s)) = formattedAgents lettaAgents"
    by (simp add: loadLettaAgents_def)
  have 2: "deleteAllAgents srv s = (Inr (), s1) \<and> getAgents srv s1 = (Inr lettaAgents, s2) \<longrightarrow>
      agents (fst (handleDeleteAllAgents True srv prev s)) = formattedAgents lettaAgents"
    by (simp add: handleDeleteAllAgents_def)
  from 1 2 formattedAgents_shown [of lettaAgents] show ?thesis by blast
qed

theorem sleeptime_agents_hidden_witness:
  "agents (fst (loadLettaAgents memory_server initial_state
       [demo_agent ''a1'' ''helper'', demo_agent ''a2'' ''helper-sleeptime'']))
     = [formatAgent (demo_agent ''a1'' ''helper'')]
   \<and> suffix ''sleeptime'' (letta_name (demo_agent ''a2'' ''helper-sleeptime''))
   \<and> agent_status (formatAgent (demo_agent ''a1'' ''helper'')) = Online
   \<and> agents (fst (handleDeleteAllAgents True memory_server initial_state
       [demo_agent ''a1'' ''helper'', demo_agent ''a2'' ''helper-sleeptime''])) = []"
proof -
  let ?L = "[demo_agent ''a1'' ''helper'', demo_agent ''a2'' ''helper-sleeptime'']"
  have g: "getAgents memory_server l = (Inr l, l)" for l
    by (simp add: getAgents_def memory_server_def)
  have f: "formattedAgents ?L = [formatAgent (demo_agent ''a1'' ''helper'')]"
    by (simp add: formattedAgents_def demo_agent_def endsWith_def)
  have sfx: "suffix ''sleeptime'' (letta_name (demo_agent ''a2'' ''helper-sleeptime''))"
    by (simp add: endsWith_suffix [symmetric] demo_agent_def endsWith_def)
  have da1: "deleteAgent memory_server ''a1'' ?L = (Inr (), [demo_agent ''a2'' ''helper-sleeptime''])"
    by (simp add: deleteAgent_def memory_server_def demo_agent_def)
  have da2: "deleteAgent memory_server ''a2'' [demo_agent ''a2'' ''helper-sleeptime''] = (Inr (), [])"
    by (simp add: deleteAgent_def memory_server_def demo_agent_def)
  have d: "deleteAllAgents memory_server ?L = (Inr (), [])"
    by (simp add: deleteAllAgents_def g da1 da2 letta_id_demo_agent)
  have 1: "agents (fst (loadLettaAgents memory_server initial_state ?L)) = formattedAgents ?L"
    using sleeptime_agents_hidden [of memory_server ?L ?L ?L initial_state] g [of ?L] by blast
  have 2: "agents (fst (handleDeleteAllAgents True memory_server initial_state ?L)) = formattedAgents []"
    using sleeptime_agents_hidden [of memory_server ?L "[]" "[]" initial_state "[]"] g [of "[]"] d by blast
  have 3: "agent_status (formatAgent (demo_agent ''a1'' ''helper'')) = Online"
    using sleeptime_agents_hidden [of memory_server ?L ?L ?L initial_state] f by simp
  from 1 2 3 f sfx show ?thesis by (simp add: formattedAgents_def)
qed

section \<open>The outbound call\<close>

lemma steps_append: "steps (xs @ ys) = steps xs @ steps ys"
  by (simp add: steps_def)

lemma steps_Nil: "steps [] = []"
  by (simp add: steps_def)

lemma steps_Cons: "steps (e # es) = (if is_log_effect e then steps es else e # steps es)"
  by (simp add: steps_def)

lemma steps_listeners: "steps (concat (map agent_listener evs)) = []"
proof (induction evs)
  case Nil
  show ?case by (simp add: steps_def)
next
  case (Cons ev evs)
  have "steps (agent_listener ev) = []" by (cases ev) (simp_all add: steps_def)
  with Cons show ?case by (simp add: steps_append)
qed

lemma steps_start_log: "steps (start_log srv env rn aid) = []"
  by (simp add: steps_def start_log_def)

lemma steps_on_dispatch_close: "steps (on_dispatch_close rn pn a code out err) = on_dispatch_close rn pn a code out err"
  by (simp add: steps_def on_dispatch_close_def)

lemma steps_timer_callback:
  "steps (timer_callback srv env rn pn a) =
     spawn_dispatch srv env rn pn
     # (case dial env of DialClosed code out err \<Rightarrow> on_dispatch_close rn pn a code out err
        | DialNeverCloses \<Rightarrow> []
        | DialFailsToStart \<Rightarrow> [Crash])"
  by (cases "dial env")
     (simp_all add: timer_callback_def steps_append steps_listeners steps_on_dispatch_close
        spawn_dispatch_def steps_Cons steps_Nil)

lemma make_call_guarded:
  assumes "body = Some req" "req_to req = JStr t" "t \<noteq> []" "truthy (req_agentId req)"
    "toString (req_agentId req) = Some aid"
    "truthy (LIVEKIT_API_KEY srv)" "truthy (LIVEKIT_API_SECRET srv)"
    "createRoom_resolves env" "logs_dir_exists env \<or> mkdir_succeeds env"
    "log_stream_created env" "agent_spawn_returns env"
  shows "make_call srv env body =
     CreateRoom (''outbound-'' @ aid @ ''-'' @ show_nat (now_room env)) 300 2
        (req_agentId req) (if startsWith t ''+'' then t else ''+1'' @ t)
     # (if \<not> logs_dir_exists env then [Mkdir (logsDir srv)] else [])
     @ start_log srv env (''outbound-'' @ aid @ ''-'' @ show_nat (now_room env)) aid
     @ [spawn_agent srv (''outbound-'' @ aid @ ''-'' @ show_nat (now_room env)) (req_agentId req),
        SetTimeout 2000]
     @ (if \<not> log_stream_opens env then [Crash]
        else concat (map agent_listener (agent_events_wait env))
             @ timer_callback srv env (''outbound-'' @ aid @ ''-'' @ show_nat (now_room env))
                 (if startsWith t ''+'' then t else ''+1'' @ t) (req_agentId req))"
  using assms by (auto simp: make_call_def Let_def)

lemma make_call_proceeds:
  assumes "body = Some req" "req_to req = JStr t" "t \<noteq> []" "truthy (req_agentId req)"
    "toString (req_agentId req) = Some aid"
    "truthy (LIVEKIT_API_KEY srv)" "truthy (LIVEKIT_API_SECRET srv)"
    "createRoom_resolves env" "logs_dir_exists env \<or> mkdir_succeeds env"
    "log_stream_created env" "agent_spawn_returns env"
    "log_stream_opens env"
  shows "make_call srv env body =
     CreateRoom (''outbound-'' @ aid @ ''-'' @ show_nat (now_room env)) 300 2
        (req_agentId req) (if startsWith t ''+'' then t else ''+1'' @ t)
     # (if \<not> logs_dir_exists env then [Mkdir (logsDir srv)] else [])
     @ start_log srv env (''outbound-'' @ aid @ ''-'' @ show_nat (now_room env)) aid
     @ [spawn_agent srv (''outbound-'' @ aid @ ''-'' @ show_nat (now_room env)) (req_agentId req),
        SetTimeout 2000]
     @ concat (map agent_listener (agent_events_wait env))
     @ timer_callback srv env (''outbound-'' @ aid @ ''-'' @ show_nat (now_room env))
         (if startsWith t ''+'' then t else ''+1'' @ t) (req_agentId req)"
  using make_call_guarded [OF assms(1-11)] assms(12) by simp

lemma listener_is_log: "x \<in> set (agent_listener ev) \<Longrightarrow> \<exists>l. x = WriteLog l"
  by (cases ev) auto

lemma listeners_are_logs: "x \<in> set (concat (map agent_listener evs)) \<Longrightarrow> \<exists>l. x = WriteLog l"
  by (auto dest: listener_is_log)

lemma start_log_are_logs: "x \<in> set (start_log srv env rn aid) \<Longrightarrow> is_log_effect x"
  by (auto simp: start_log_def)

lemma make_call_stops:
  assumes "\<not> (\<exists>req t aid. body = Some req \<and> req_to req = JStr t \<and> t \<noteq> []
    \<and> truthy (req_agentId req) \<and> toString (req_agentId req) = Some aid
    \<and> truthy (LIVEKIT_API_KEY srv) \<and> truthy (LIVEKIT_API_SECRET srv)
    \<and> createRoom_resolves env \<and> (logs_dir_exists env \<or> mkdir_succeeds env)
    \<and> log_stream_created env \<and> agent_spawn_returns env)"
  shows "\<forall>x \<in> set (make_call srv env body).
           (\<exists>r. x = Respond r) \<or> (\<exists>n a p. x = CreateRoom n 300 2 a p) \<or> is_log_effect x"
proof (cases body)
  case None
  then show ?thesis by (simp add: make_call_def failed_to_make_call_def)
next
  case (Some req)
  show ?thesis
  proof (cases "toString (req_agentId req)")
    case None
    with Some show ?thesis
      by (cases "req_to req") (auto simp: make_call_def Let_def failed_to_make_call_def)
  next
    case (Some aid)
    with \<open>body = Some req\<close> assms show ?thesis
      by (cases "req_to req")
         (auto simp: make_call_def Let_def failed_to_make_call_def dest: start_log_are_logs)
  qed
qed

lemma timer_callback_members:
  "x \<in> set (timer_callback srv env rn pn a) \<Longrightarrow>
     x = spawn_dispatch srv env rn pn \<or> (\<exists>l. x = WriteLog l) \<or> x = Kill AgentProcess
     \<or> (\<exists>r. x = Respond r) \<or> x = Crash"
  by (cases "dial env")
     (auto simp: timer_callback_def on_dispatch_close_def dest: listener_is_log split: if_splits)

lemma dispatch_spawned_proceeds:
  assumes "Spawn DispatchProcess c a e \<in> set (make_call srv env body)"
  shows "\<exists>req t aid. body = Some req \<and> req_to req = JStr t \<and> t \<noteq> []
    \<and> truthy (req_agentId req) \<and> toString (req_agentId req) = Some aid
    \<and> truthy (LIVEKIT_API_KEY srv) \<and> truthy (LIVEKIT_API_SECRET srv)
    \<and> createRoom_resolves env \<and> (logs_dir_exists env \<or> mkdir_succeeds env)
    \<and> log_stream_created env \<and> agent_spawn_returns env
    \<and> log_stream_opens env"
proof (cases "\<exists>req t aid. body = Some req \<and> req_to req = JStr t \<and> t \<noteq> []
    \<and> truthy (req_agentId req) \<and> toString (req_agentId req) = Some aid
    \<and> truthy (LIVEKIT_API_KEY srv) \<and> truthy (LIVEKIT_API_SECRET srv)
    \<and> createRoom_resolves env \<and> (logs_dir_exists env \<or> mkdir_succeeds env)
    \<and> log_stream_created env \<and> agent_spawn_returns env")
  case False
  from make_call_stops [OF False] assms show ?thesis by auto
next
  case True
  then obtain req t aid where
    h: "body = Some req" "req_to req = JStr t" "t \<noteq> []" "truthy (req_agentId req)"
       "toString (req_agentId req) = Some aid"
       "truthy (LIVEKIT_API_KEY srv)" "truthy (LIVEKIT_API_SECRET srv)"
       "createRoom_resolves env" "logs_dir_exists env \<or> mkdir_succeeds env"
       "log_stream_created env" "agent_spawn_returns env"
    by blast
  have "log_stream_opens env"
  proof (rule ccontr)
    assume "\<not> log_stream_opens env"
    with assms show False
      by (auto simp: make_call_guarded [OF h] spawn_agent_def dest: start_log_are_logs split: if_splits)
  qed
  with h show ?thesis by blast
qed

lemma timeout_is_fixed:
  assumes "SetTimeout k \<in> set (make_call srv env body)"
  shows "k = 2000"
proof (cases "\<exists>req t aid. body = Some req \<and> req_to req = JStr t \<and> t \<noteq> []
    \<and> truthy (req_agentId req) \<and> toString (req_agentId req) = Some aid
    \<and> truthy (LIVEKIT_API_KEY srv) \<and> truthy (LIVEKIT_API_SECRET srv)
    \<and> createRoom_resolves env \<and> (logs_dir_exists env \<or> mkdir_succeeds env)
    \<and> log_stream_created env \<and> agent_spawn_returns env")
  case False
  from make_call_stops [OF False] assms show ?thesis by auto
next
  case True
  then obtain req t aid where
    h: "body = Some req" "req_to req = JStr t" "t \<noteq> []" "truthy (req_agentId req)"
       "toString (req_agentId req) = Some aid"
       "truthy (LIVEKIT_API_KEY srv)" "truthy (LIVEKIT_API_SECRET srv)"
       "createRoom_resolves env" "logs_dir_exists env \<or> mkdir_succeeds env"
       "log_stream_created env" "agent_spawn_returns env"
    by blast
  from assms show ?thesis
    by (auto simp: make_call_guarded [OF h] spawn_agent_def spawn_dispatch_def
        dest: start_log_are_logs listener_is_log timer_callback_members split: if_splits)
qed











lemma demo_credentials: "truthy (LIVEKIT_API_KEY demo_server)" "truthy (LIVEKIT_API_SECRET demo_server)"
  by (simp_all add: LIVEKIT_API_KEY_def LIVEKIT_API_SECRET_def demo_server_def getenv_def js_or_def)

lemma demo_room_name: "show_nat 1700000000000 = ''1700000000000''"
  by (simp add: show_nat.simps digit_char_def)


lemma demo_request_fields:
  "req_to demo_request = JStr ''5551234567''" "''5551234567'' \<noteq> []"
  "truthy (req_agentId demo_request)" "toString (req_agentId demo_request) = Some ''agent-1''"
  "req_agentId demo_request = JStr ''agent-1''"
  by (simp_all add: demo_request_def)

lemma demo_phone: "(if startsWith ''5551234567'' ''+'' then ''5551234567'' else ''+1'' @ ''5551234567'') = ''+15551234567''"
  by (simp add: startsWith_def)

text \<open>
  C1, as amended. When the body is parsed, \<open>to\<close> is a non-empty string, \<open>agentId\<close> is
  truthy and can be rendered as a string, the LiveKit credentials are configured, and
  every call the handler makes before the timer succeeds (the room service creates the
  room, the log directory exists or is made, the log stream is created and opens its
  file, the spawn of the agent returns), the handler performs, apart from its writes to
  the log, these steps in
  this order: it creates the room named \<open>outbound-<agentId>-<clock>\<close>, spawns the agent
  (\<open>conda run -n letta python ...\<close>), sets the timer, spawns the dial command
  (\<open>lk sip participant create ...\<close>), and, when that command closes, answers with its
  outcome: 200 with room name, phone number and agent id on exit code 0, and otherwise
  the kill of the agent and a 500. A dial command that never closes gets no answer, and
  one that cannot be started ends the process.
\<close>

theorem make_call_sequence:
  assumes "body = Some req" and "req_to req = JStr t" and "t \<noteq> []"
    and "truthy (req_agentId req)" and "toString (req_agentId req) = Some agentIdText"
    and "truthy (LIVEKIT_API_KEY srv)" and "truthy (LIVEKIT_API_SECRET srv)"
    and "createRoom_resolves env" and "logs_dir_exists env \<or> mkdir_succeeds env"
    and "log_stream_created env" and "agent_spawn_returns env"
    and "log_stream_opens env"
    and "roomName = ''outbound-'' @ agentIdText @ ''-'' @ show_nat (now_room env)"
    and "phoneNumber = (if startsWith t ''+'' then t else ''+1'' @ t)"
  shows "steps (make_call srv env body) =
      [CreateRoom roomName 300 2 (req_agentId req) phoneNumber,
       spawn_agent srv roomName (req_agentId req),
       SetTimeout 2000,
       spawn_dispatch srv env roomName phoneNumber]
      @ (case dial env of
           DialNeverCloses \<Rightarrow> []
         | DialFailsToStart \<Rightarrow> [Crash]
         | DialClosed code output error \<Rightarrow>
             if code = Some 0
             then [Respond \<lparr>status = 200,
                            json = [(''roomName'', JStr roomName), (''status'', JStr ''dispatched''),
                                    (''phoneNumber'', JStr phoneNumber), (''agentId'', req_agentId req)]\<rparr>]
             else [Kill AgentProcess,
                   Respond \<lparr>status = 500,
                            json = [(''error'', JStr (''SIP call failed: ''
                                      @ (if error \<noteq> [] then error else ''Unknown error'')))]\<rparr>])
    \<and> (\<exists>args vars. spawn_agent srv roomName (req_agentId req)
          = Spawn AgentProcess ''conda'' (''run'' # ''-n'' # ''letta'' # ''python'' # args) vars)
    \<and> (\<exists>args vars. spawn_dispatch srv env roomName phoneNumber
          = Spawn DispatchProcess ''lk'' (''sip'' # ''participant'' # ''create'' # args) vars)"
proof (intro conjI)
  have mc: "make_call srv env body =
     CreateRoom roomName 300 2 (req_agentId req) phoneNumber
     # (if \<not> logs_dir_exists env then [Mkdir (logsDir srv)] else [])
     @ start_log srv env roomName agentIdText
     @ [spawn_agent srv roomName (req_agentId req), SetTimeout 2000]
     @ concat (map agent_listener (agent_events_wait env))
     @ timer_callback srv env roomName phoneNumber (req_agentId req)"
    using make_call_proceeds [OF assms(1-12)] assms(13,14) by simp
  have sa: "\<not> is_log_effect (spawn_agent srv roomName (req_agentId req))"
    by (simp add: spawn_agent_def)
  have st: "steps (make_call srv env body) =
      [CreateRoom roomName 300 2 (req_agentId req) phoneNumber,
       spawn_agent srv roomName (req_agentId req), SetTimeout 2000]
      @ steps (timer_callback srv env roomName phoneNumber (req_agentId req))"
    by (simp add: mc steps_Cons steps_Nil steps_append steps_start_log steps_listeners sa)
  show "steps (make_call srv env body) =
      [CreateRoom roomName 300 2 (req_agentId req) phoneNumber,
       spawn_agent srv roomName (req_agentId req),
       SetTimeout 2000,
       spawn_dispatch srv env roomName phoneNumber]
      @ (case dial env of
           DialNeverCloses \<Rightarrow> []
         | DialFailsToStart \<Rightarrow> [Crash]
         | DialClosed code output error \<Rightarrow>
             if code = Some 0
             then [Respond \<lparr>status = 200,
                            json = [(''roomName'', JStr roomName), (''status'', JStr ''dispatched''),
                                    (''phoneNumber'', JStr phoneNumber), (''agentId'', req_agentId req)]\<rparr>]
             else [Kill AgentProcess,
                   Respond \<lparr>status = 500,
                            json = [(''error'', JStr (''SIP call failed: ''
                                      @ (if error \<noteq> [] then error else ''Unknown error'')))]\<rparr>])"
    by (cases "dial env") (simp_all add: st steps_timer_callback on_dispatch_close_def)
next
  show "\<exists>args vars. spawn_agent srv roomName (req_agentId req)
          = Spawn AgentProcess ''conda'' (''run'' # ''-n'' # ''letta'' # ''python'' # args) vars"
    by (simp add: spawn_agent_def)
next
  show "\<exists>args vars. spawn_dispatch srv env roomName phoneNumber
          = Spawn DispatchProcess ''lk'' (''sip'' # ''participant'' # ''create'' # args) vars"
    by (simp add: spawn_dispatch_def)
qed

theorem make_call_sequence_witness:
  "steps (make_call demo_server demo_env (Some demo_request)) =
     [CreateRoom ''outbound-agent-1-1700000000000'' 300 2 (JStr ''agent-1'') ''+15551234567'',
      spawn_agent demo_server ''outbound-agent-1-1700000000000'' (JStr ''agent-1''),
      SetTimeout 2000,
      spawn_dispatch demo_server demo_env ''outbound-agent-1-1700000000000'' ''+15551234567'',
      Respond \<lparr>status = 200,
               json = [(''roomName'', JStr ''outbound-agent-1-1700000000000''), (''status'', JStr ''dispatched''),
                       (''phoneNumber'', JStr ''+15551234567''), (''agentId'', JStr ''agent-1'')]\<rparr>]"
proof -
  have e: "createRoom_resolves demo_env" "logs_dir_exists demo_env \<or> mkdir_succeeds demo_env"
    "log_stream_created demo_env" "agent_spawn_returns demo_env" "log_stream_opens demo_env"
    by (simp_all add: demo_env_def)
  have rn: "''outbound-agent-1-1700000000000''
      = ''outbound-'' @ ''agent-1'' @ ''-'' @ show_nat (now_room demo_env)"
    by (simp add: demo_env_def demo_room_name)
  have d: "dial demo_env = DialClosed (Some 0) [] []" by (simp add: demo_env_def)
  from make_call_sequence [OF refl demo_request_fields(1,2,3,4) demo_credentials e rn demo_phone [symmetric]]
  show ?thesis by (simp add: d demo_request_fields(5))
qed

text \<open>
  C1 as stated fails. With credentials configured and both fields in the body: an empty
  \<open>to\<close> is answered 400; a \<open>to\<close> that is not a string, and an \<open>agentId\<close> such as
  \<open>{"toString": 1}\<close> that cannot be rendered in the room name, are answered 500 before any
  room is created; when the room service rejects the creation, the log directory
  cannot be made, or the spawn of the agent throws, the handler answers 500 and sets no
  timer; and when the log file cannot be opened the process ends before the dial command
  is spawned.
\<close>

theorem make_call_sequence_counterexample:
  "truthy (LIVEKIT_API_KEY demo_server) \<and> truthy (LIVEKIT_API_SECRET demo_server)
   \<and> make_call demo_server demo_env (Some \<lparr>req_to = JStr [], req_agentId = JStr ''agent-1''\<rparr>)
       = [Respond \<lparr>status = 400, json = [(''error'', JStr ''Phone number and agentId are required'')]\<rparr>]
   \<and> make_call demo_server demo_env
         (Some \<lparr>req_to = JOther True (Some ''5551234567''), req_agentId = JStr ''agent-1''\<rparr>)
       = [Respond \<lparr>status = 500, json = [(''error'', JStr ''Failed to make call'')]\<rparr>]
   \<and> make_call demo_server demo_env
         (Some \<lparr>req_to = JStr ''5551234567'', req_agentId = JOther True None\<rparr>)
       = [Respond \<lparr>status = 500, json = [(''error'', JStr ''Failed to make call'')]\<rparr>]
   \<and> make_call demo_server (demo_env\<lparr>createRoom_resolves := False\<rparr>) (Some demo_request)
       = [CreateRoom ''outbound-agent-1-1700000000000'' 300 2 (JStr ''agent-1'') ''+15551234567'',
          Respond \<lparr>status = 500, json = [(''error'', JStr ''Failed to make call'')]\<rparr>]
   \<and> make_call demo_server (demo_env\<lparr>logs_dir_exists := False, mkdir_succeeds := False\<rparr>) (Some demo_request)
       = [CreateRoom ''outbound-agent-1-1700000000000'' 300 2 (JStr ''agent-1'') ''+15551234567'',
          Mkdir ''/app/server/logs'',
          Respond \<lparr>status = 500, json = [(''error'', JStr ''Failed to make call'')]\<rparr>]
   \<and> steps (make_call demo_server (demo_env\<lparr>agent_spawn_returns := False\<rparr>) (Some demo_request))
       = [CreateRoom ''outbound-agent-1-1700000000000'' 300 2 (JStr ''agent-1'') ''+15551234567'',
          Respond \<lparr>status = 500, json = [(''error'', JStr ''Failed to make call'')]\<rparr>]
   \<and> steps (make_call demo_server (demo_env\<lparr>log_stream_opens := False\<rparr>) (Some demo_request))
       = [CreateRoom ''outbound-agent-1-1700000000000'' 300 2 (JStr ''agent-1'') ''+15551234567'',
          spawn_agent demo_server ''outbound-agent-1-1700000000000'' (JStr ''agent-1''),
          SetTimeout 2000,
          Crash]"
proof -
  have n: "now_room demo_env = 1700000000000" by (simp add: demo_env_def)
  have l: "logsDir demo_server = ''/app/server/logs''" by (simp add: demo_server_def)
  have c: "createRoom_resolves demo_env" "logs_dir_exists demo_env" by (simp_all add: demo_env_def)
  have 1: "make_call demo_server demo_env (Some \<lparr>req_to = JStr [], req_agentId = JStr ''agent-1''\<rparr>)
       = [Respond \<lparr>status = 400, json = [(''error'', JStr ''Phone number and agentId are required'')]\<rparr>]"
    by (simp add: make_call_def)
  have 2: "make_call demo_server demo_env
         (Some \<lparr>req_to = JOther True (Some ''5551234567''), req_agentId = JStr ''agent-1''\<rparr>)
       = [Respond \<lparr>status = 500, json = [(''error'', JStr ''Failed to make call'')]\<rparr>]"
    by (simp add: make_call_def failed_to_make_call_def)
  have 3: "make_call demo_server demo_env
         (Some \<lparr>req_to = JStr ''5551234567'', req_agentId = JOther True None\<rparr>)
       = [Respond \<lparr>status = 500, json = [(''error'', JStr ''Failed to make call'')]\<rparr>]"
    by (simp add: make_call_def failed_to_make_call_def)
  have 4: "make_call demo_server (demo_env\<lparr>createRoom_resolves := False\<rparr>) (Some demo_request)
       = [CreateRoom ''outbound-agent-1-1700000000000'' 300 2 (JStr ''agent-1'') ''+15551234567'',
          Respond \<lparr>status = 500, json = [(''error'', JStr ''Failed to make call'')]\<rparr>]"
    by (simp add: demo_credentials make_call_def Let_def demo_request_def n demo_room_name
        startsWith_def failed_to_make_call_def)
  have 5: "make_call demo_server (demo_env\<lparr>logs_dir_exists := False, mkdir_succeeds := False\<rparr>) (Some demo_request)
       = [CreateRoom ''outbound-agent-1-1700000000000'' 300 2 (JStr ''agent-1'') ''+15551234567'',
          Mkdir ''/app/server/logs'',
          Respond \<lparr>status = 500, json = [(''error'', JStr ''Failed to make call'')]\<rparr>]"
    by (simp add: demo_credentials make_call_def Let_def demo_request_def n l c demo_room_name
        startsWith_def failed_to_make_call_def)
  let ?env = "demo_env\<lparr>log_stream_opens := False\<rparr>"
  have e: "createRoom_resolves ?env" "logs_dir_exists ?env \<or> mkdir_succeeds ?env"
    "log_stream_created ?env" "agent_spawn_returns ?env" "\<not> log_stream_opens ?env"
    by (simp_all add: demo_env_def)
  have c': "log_stream_created demo_env" by (simp add: demo_env_def)
  have 7: "steps (make_call demo_server (demo_env\<lparr>agent_spawn_returns := False\<rparr>) (Some demo_request))
       = [CreateRoom ''outbound-agent-1-1700000000000'' 300 2 (JStr ''agent-1'') ''+15551234567'',
          Respond \<lparr>status = 500, json = [(''error'', JStr ''Failed to make call'')]\<rparr>]"
    by (simp add: demo_credentials make_call_def Let_def demo_request_def n c c' demo_room_name
        startsWith_def failed_to_make_call_def steps_Cons steps_Nil steps_append steps_start_log)
  have sa: "\<not> is_log_effect (spawn_agent demo_server r a)" for r a
    by (simp add: spawn_agent_def)
  have 6: "steps (make_call demo_server ?env (Some demo_request))
       = [CreateRoom ''outbound-agent-1-1700000000000'' 300 2 (JStr ''agent-1'') ''+15551234567'',
          spawn_agent demo_server ''outbound-agent-1-1700000000000'' (JStr ''agent-1''),
          SetTimeout 2000,
          Crash]"
    using e(5)
    by (simp add: make_call_guarded [OF refl demo_request_fields(1,2,3,4) demo_credentials e(1,2,3,4)]
        steps_Cons steps_Nil steps_append steps_start_log sa demo_phone n demo_room_name
        demo_request_fields(5) c)
  from demo_credentials 1 2 3 4 5 6 7 show ?thesis by blast
qed

text \<open>
  C2. When the dial command was spawned and closes with an exit code other than 0, the
  run ends with the kill of the agent process followed by the 500 response that carries
  the dial command's error output (\<open>Unknown error\<close> when that output is empty). Before
  these two the handler has, apart from writes to the log, created the room once,
  spawned the agent once, set the timer once and spawned the dial command once: nothing
  is tried a second time, and the room is not deleted.
\<close>

theorem dial_failure_recovery:
  assumes "Spawn DispatchProcess c a e \<in> set (make_call srv env body)"
    and "dial env = DialClosed code output error"
    and "code \<noteq> Some 0"
  shows "\<exists>req pre roomName phoneNumber.
      body = Some req
      \<and> make_call srv env body =
        pre @ [Kill AgentProcess,
               Respond \<lparr>status = 500,
                        json = [(''error'', JStr (''SIP call failed: ''
                                  @ (if error \<noteq> [] then error else ''Unknown error'')))]\<rparr>]
      \<and> steps pre =
          [CreateRoom roomName 300 2 (req_agentId req) phoneNumber,
           spawn_agent srv roomName (req_agentId req),
           SetTimeout 2000,
           spawn_dispatch srv env roomName phoneNumber]
      \<and> (\<forall>r. DeleteRoom r \<notin> set (make_call srv env body))"
proof -
  from dispatch_spawned_proceeds [OF assms(1)] obtain req t aid where
    h: "body = Some req" "req_to req = JStr t" "t \<noteq> []" "truthy (req_agentId req)"
       "toString (req_agentId req) = Some aid"
       "truthy (LIVEKIT_API_KEY srv)" "truthy (LIVEKIT_API_SECRET srv)"
       "createRoom_resolves env" "logs_dir_exists env \<or> mkdir_succeeds env"
       "log_stream_created env" "agent_spawn_returns env"
       "log_stream_opens env"
    by blast
  define rn where "rn = ''outbound-'' @ aid @ ''-'' @ show_nat (now_room env)"
  define pn where "pn = (if startsWith t ''+'' then t else ''+1'' @ t)"
  define pre where "pre =
     CreateRoom rn 300 2 (req_agentId req) pn
     # (if \<not> logs_dir_exists env then [Mkdir (logsDir srv)] else [])
     @ start_log srv env rn aid
     @ [spawn_agent srv rn (req_agentId req), SetTimeout 2000]
     @ concat (map agent_listener (agent_events_wait env))
     @ spawn_dispatch srv env rn pn # concat (map agent_listener (agent_events_dial env))"
  let ?tail = "[Kill AgentProcess,
               Respond \<lparr>status = 500,
                        json = [(''error'', JStr (''SIP call failed: ''
                                  @ (if error \<noteq> [] then error else ''Unknown error'')))]\<rparr>]"
  have tc: "timer_callback srv env rn pn (req_agentId req) =
      spawn_dispatch srv env rn pn # concat (map agent_listener (agent_events_dial env)) @ ?tail"
    using assms(2,3) by (simp add: timer_callback_def on_dispatch_close_def)
  have mc: "make_call srv env body = pre @ ?tail"
    using make_call_proceeds [OF h, folded rn_def pn_def] by (simp add: pre_def tc)
  have sa: "\<not> is_log_effect (spawn_agent srv rn (req_agentId req))"
    "\<not> is_log_effect (spawn_dispatch srv env rn pn)"
    by (simp_all add: spawn_agent_def spawn_dispatch_def)
  have sp: "steps pre =
          [CreateRoom rn 300 2 (req_agentId req) pn,
           spawn_agent srv rn (req_agentId req),
           SetTimeout 2000,
           spawn_dispatch srv env rn pn]"
    by (simp add: pre_def steps_Cons steps_Nil steps_append steps_start_log steps_listeners sa)
  have nd: "DeleteRoom r \<notin> set (make_call srv env body)" for r
  proof
    assume "DeleteRoom r \<in> set (make_call srv env body)"
    then have "DeleteRoom r \<in> set (steps (make_call srv env body))" by (simp add: steps_def)
    then show False
      by (simp add: mc steps_append sp steps_Cons steps_Nil spawn_agent_def spawn_dispatch_def)
  qed
  from h(1) mc sp nd show ?thesis by blast
qed

theorem dial_failure_recovery_witness:
  "last (make_call demo_server (demo_env\<lparr>dial := DialClosed (Some 1) [] ''trunk not found''\<rparr>) (Some demo_request))
     = Respond \<lparr>status = 500, json = [(''error'', JStr ''SIP call failed: trunk not found'')]\<rparr>
   \<and> Kill AgentProcess
       \<in> set (make_call demo_server (demo_env\<lparr>dial := DialClosed (Some 1) [] ''trunk not found''\<rparr>) (Some demo_request))
   \<and> DeleteRoom ''outbound-agent-1-1700000000000''
       \<notin> set (make_call demo_server (demo_env\<lparr>dial := DialClosed (Some 1) [] ''trunk not found''\<rparr>) (Some demo_request))"
proof -
  let ?env = "demo_env\<lparr>dial := DialClosed (Some 1) [] ''trunk not found''\<rparr>"
  have e: "createRoom_resolves ?env" "logs_dir_exists ?env \<or> mkdir_succeeds ?env"
    "log_stream_created ?env" "agent_spawn_returns ?env" "log_stream_opens ?env"
    by (simp_all add: demo_env_def)
  have "spawn_dispatch demo_server ?env
          (''outbound-'' @ ''agent-1'' @ ''-'' @ show_nat (now_room ?env))
          (if startsWith ''5551234567'' ''+'' then ''5551234567'' else ''+1'' @ ''5551234567'')
        \<in> set (make_call demo_server ?env (Some demo_request))"
    by (simp add: make_call_proceeds [OF refl demo_request_fields(1,2,3,4) demo_credentials e] timer_callback_def)
  then have s: "Spawn DispatchProcess ''lk''
       [''sip'', ''participant'', ''create'',
        ''--room'', ''outbound-'' @ ''agent-1'' @ ''-'' @ show_nat (now_room ?env),
        ''--trunk'', ''ST_LgQdMYv7NnfA'',
        ''--call'', (if startsWith ''5551234567'' ''+'' then ''5551234567'' else ''+1'' @ ''5551234567''),
        ''--identity'', ''sip-'' @ show_nat (now_dial ?env)]
       [(''LIVEKIT_URL'', LIVEKIT_WS_URL demo_server),
        (''LIVEKIT_API_KEY'', LIVEKIT_API_KEY demo_server),
        (''LIVEKIT_API_SECRET'', LIVEKIT_API_SECRET demo_server)]
      \<in> set (make_call demo_server ?env (Some demo_request))"
    by (simp only: spawn_dispatch_def)
  have d: "dial ?env = DialClosed (Some 1) [] ''trunk not found''" by simp
  have c: "Some (1::int) \<noteq> Some 0" by simp
  from dial_failure_recovery [OF s d c] show ?thesis by auto
qed

section \<open>The wait before dialling and the room names\<close>

text \<open>
  C3. Every timer the handler sets has the delay 2000 milliseconds, whatever the request,
  the process and the run, so any two runs that set a timer set the same delay. Whenever
  the dial command is spawned, the run has the agent spawn, then the timer of 2000, then
  only the log lines that the agent's listeners write for what the agent emits meanwhile
  (its output, a failure to start, its exit), then the dial spawn; there is no other
  timer in the run.
\<close>

theorem wait_is_two_seconds:
  "(SetTimeout d \<in> set (make_call srv env body) \<longrightarrow> d = 2000)
   \<and> (SetTimeout d \<in> set (make_call srv env body) \<and> SetTimeout d' \<in> set (make_call srv' env' body')
        \<longrightarrow> d = d')
   \<and> (Spawn DispatchProcess c a e \<in> set (make_call srv env body) \<longrightarrow>
        (\<exists>req pre roomName post.
           body = Some req
           \<and> make_call srv env body =
             pre @ [spawn_agent srv roomName (req_agentId req), SetTimeout 2000]
                 @ concat (map agent_listener (agent_events_wait env))
                 @ [Spawn DispatchProcess c a e] @ post
           \<and> (\<forall>x \<in> set (concat (map agent_listener (agent_events_wait env))). \<exists>l. x = WriteLog l)
           \<and> (\<forall>x \<in> set pre. \<forall>k. x \<noteq> SetTimeout k)
           \<and> (\<forall>x \<in> set post. \<forall>k. x \<noteq> SetTimeout k)))"
proof (intro conjI impI)
  {
    assume "SetTimeout d \<in> set (make_call srv env body)"
    then show "d = 2000" by (rule timeout_is_fixed)
  next
    assume "SetTimeout d \<in> set (make_call srv env body) \<and> SetTimeout d' \<in> set (make_call srv' env' body')"
    then have "d = 2000" "d' = 2000" by (auto dest: timeout_is_fixed)
    then show "d = d'" by simp
  next
    assume m: "Spawn DispatchProcess c a e \<in> set (make_call srv env body)"
    from dispatch_spawned_proceeds [OF m] obtain req t aid where
      h: "body = Some req" "req_to req = JStr t" "t \<noteq> []" "truthy (req_agentId req)"
         "toString (req_agentId req) = Some aid"
         "truthy (LIVEKIT_API_KEY srv)" "truthy (LIVEKIT_API_SECRET srv)"
         "createRoom_resolves env" "logs_dir_exists env \<or> mkdir_succeeds env"
         "log_stream_created env" "agent_spawn_returns env"
         "log_stream_opens env"
      by blast
    define rn where "rn = ''outbound-'' @ aid @ ''-'' @ show_nat (now_room env)"
    define pn where "pn = (if startsWith t ''+'' then t else ''+1'' @ t)"
    define pre where "pre =
       CreateRoom rn 300 2 (req_agentId req) pn
       # (if \<not> logs_dir_exists env then [Mkdir (logsDir srv)] else [])
       @ start_log srv env rn aid"
    define post where "post =
       concat (map agent_listener (agent_events_dial env))
       @ (case dial env of
            DialClosed code output error \<Rightarrow> on_dispatch_close rn pn (req_agentId req) code output error
          | DialNeverCloses \<Rightarrow> []
          | DialFailsToStart \<Rightarrow> [Crash])"
    have mc: "make_call srv env body =
        pre @ [spawn_agent srv rn (req_agentId req), SetTimeout 2000]
            @ concat (map agent_listener (agent_events_wait env))
            @ [spawn_dispatch srv env rn pn] @ post"
      using make_call_proceeds [OF h, folded rn_def pn_def]
      by (simp add: pre_def post_def timer_callback_def)
    have pre_no: "\<forall>x \<in> set pre. \<forall>k. x \<noteq> SetTimeout k"
      by (auto simp: pre_def dest: start_log_are_logs)
    have post_no: "\<forall>x \<in> set post. \<forall>k. x \<noteq> SetTimeout k"
      by (cases "dial env") (auto simp: post_def on_dispatch_close_def dest: listener_is_log split: if_splits)
    have logs: "\<forall>x \<in> set (concat (map agent_listener (agent_events_wait env))). \<exists>l. x = WriteLog l"
      by (auto dest: listener_is_log)
    have "Spawn DispatchProcess c a e = spawn_dispatch srv env rn pn"
    proof -
      from m have "Spawn DispatchProcess c a e \<in> set pre
          \<or> Spawn DispatchProcess c a e = spawn_agent srv rn (req_agentId req)
          \<or> Spawn DispatchProcess c a e \<in> set (concat (map agent_listener (agent_events_wait env)))
          \<or> Spawn DispatchProcess c a e = spawn_dispatch srv env rn pn
          \<or> Spawn DispatchProcess c a e \<in> set post"
        by (simp add: mc) blast
      moreover have "Spawn DispatchProcess c a e \<notin> set pre"
        by (auto simp: pre_def dest: start_log_are_logs)
      moreover have "Spawn DispatchProcess c a e \<noteq> spawn_agent srv rn (req_agentId req)"
        by (simp add: spawn_agent_def)
      moreover have "Spawn DispatchProcess c a e \<notin> set (concat (map agent_listener (agent_events_wait env)))"
        by (auto dest: listener_is_log)
      moreover have "Spawn DispatchProcess c a e \<notin> set post"
        by (cases "dial env") (auto simp: post_def on_dispatch_close_def dest: listener_is_log split: if_splits)
      ultimately show ?thesis by blast
    qed
    with h(1) mc pre_no post_no logs
    show "\<exists>req pre roomName post.
           body = Some req
           \<and> make_call srv env body =
             pre @ [spawn_agent srv roomName (req_agentId req), SetTimeout 2000]
                 @ concat (map agent_listener (agent_events_wait env))
                 @ [Spawn DispatchProcess c a e] @ post
           \<and> (\<forall>x \<in> set (concat (map agent_listener (agent_events_wait env))). \<exists>l. x = WriteLog l)
           \<and> (\<forall>x \<in> set pre. \<forall>k. x \<noteq> SetTimeout k)
           \<and> (\<forall>x \<in> set post. \<forall>k. x \<noteq> SetTimeout k)"
      by (intro exI [of _ req] exI [of _ pre] exI [of _ rn] exI [of _ post]) simp
  }
qed

lemma demo_timer_set:
  "createRoom_resolves v \<Longrightarrow> logs_dir_exists v \<or> mkdir_succeeds v \<Longrightarrow>
   log_stream_created v \<Longrightarrow> agent_spawn_returns v \<Longrightarrow>
   SetTimeout 2000 \<in> set (make_call demo_server v (Some demo_request))"
proof -
  assume v: "createRoom_resolves v" "logs_dir_exists v \<or> mkdir_succeeds v"
    "log_stream_created v" "agent_spawn_returns v"
  show ?thesis
    by (simp add: make_call_guarded [OF refl demo_request_fields(1,2,3,4) demo_credentials v])
qed

theorem wait_is_two_seconds_witness:
  "SetTimeout 2000 \<in> set (make_call demo_server demo_env (Some demo_request))
   \<and> SetTimeout 2000 \<in> set (make_call demo_server
        (demo_env\<lparr>agent_events_wait := [AgentError ''spawn conda ENOENT'' ''at ChildProcess'']\<rparr>)
        (Some demo_request))
   \<and> SetTimeout 5000 \<notin> set (make_call demo_server demo_env (Some demo_request))
   \<and> (\<exists>c a e. Spawn DispatchProcess c a e \<in> set (make_call demo_server demo_env (Some demo_request)))"
proof -
  let ?env' = "demo_env\<lparr>agent_events_wait := [AgentError ''spawn conda ENOENT'' ''at ChildProcess'']\<rparr>"
  have e: "createRoom_resolves demo_env" "logs_dir_exists demo_env \<or> mkdir_succeeds demo_env"
    "log_stream_created demo_env" "agent_spawn_returns demo_env"
    "createRoom_resolves ?env'" "logs_dir_exists ?env' \<or> mkdir_succeeds ?env'"
    "log_stream_created ?env'" "agent_spawn_returns ?env'"
    "log_stream_opens demo_env"
    by (simp_all add: demo_env_def)
  have 1: "SetTimeout 2000 \<in> set (make_call demo_server demo_env (Some demo_request))"
    by (rule demo_timer_set [OF e(1,2,3,4)])
  have 2: "SetTimeout 2000 \<in> set (make_call demo_server ?env' (Some demo_request))"
    by (rule demo_timer_set [OF e(5,6,7,8)])
  have 3: "SetTimeout 5000 \<notin> set (make_call demo_server demo_env (Some demo_request))"
    using wait_is_two_seconds [of 5000 demo_server demo_env "Some demo_request" 2000 demo_server ?env'
        "Some demo_request"] 2
    by auto
  have "spawn_dispatch demo_server demo_env
          (''outbound-'' @ ''agent-1'' @ ''-'' @ show_nat (now_room demo_env))
          (if startsWith ''5551234567'' ''+'' then ''5551234567'' else ''+1'' @ ''5551234567'')
        \<in> set (make_call demo_server demo_env (Some demo_request))"
    by (simp add: make_call_proceeds [OF refl demo_request_fields(1,2,3,4) demo_credentials e(1,2,3,4,9)]
        timer_callback_def)
  then have 4: "\<exists>c a e. Spawn DispatchProcess c a e \<in> set (make_call demo_server demo_env (Some demo_request))"
    unfolding spawn_dispatch_def by blast
  from 1 2 3 4 show ?thesis by blast
qed




section \<open>The token endpoint\<close>

text \<open>
  C4, as amended. On a parsed body the token handler answers 400 exactly when
  \<open>roomName\<close> or \<open>participantName\<close> is missing or falsy, and on no other request.
  Otherwise, with credentials configured, it answers 200 with the token the library
  returns (a non-empty string) for the identity \<open>participantName\<close> and a grant on the
  room \<open>roomName\<close>, with the websocket URL, the room name and the participant name;
  without credentials it answers 500. When \<open>req.body\<close> is undefined it answers 500. It
  answers nothing but 200, 400 and 500.
\<close>

theorem livekit_token_responses:
  "(status (post_livekit_token toJwt srv body) = 400
      \<longleftrightarrow> (\<exists>b. body = Some b \<and> (\<not> truthy (req_roomName b) \<or> \<not> truthy (req_participantName b))))
   \<and> (body = Some req \<and> truthy (req_roomName req) \<and> truthy (req_participantName req)
        \<and> truthy (LIVEKIT_API_KEY srv) \<and> truthy (LIVEKIT_API_SECRET srv)
        \<and> toJwt (LIVEKIT_API_KEY srv) (LIVEKIT_API_SECRET srv)
             \<lparr>identity = req_participantName req, ttl = ''10m''\<rparr>
             \<lparr>roomJoin = True, room = req_roomName req, canPublish = True, canSubscribe = True,
              canPublishData = True\<rparr> = JwtValue (JStr jwt)
        \<and> jwt \<noteq> []
      \<longrightarrow> post_livekit_token toJwt srv body =
            \<lparr>status = 200,
             json = [(''token'', JStr jwt), (''wsUrl'', LIVEKIT_WS_URL srv),
                     (''roomName'', req_roomName req),
                     (''participantName'', req_participantName req)]\<rparr>)
   \<and> (body = Some req \<and> truthy (req_roomName req) \<and> truthy (req_participantName req)
        \<and> (\<not> truthy (LIVEKIT_API_KEY srv) \<or> \<not> truthy (LIVEKIT_API_SECRET srv))
      \<longrightarrow> post_livekit_token toJwt srv body =
            \<lparr>status = 500,
             json = [(''error'', JStr ''Failed to generate token''),
                     (''details'', JStr ''LiveKit API credentials not configured'')]\<rparr>)
   \<and> (body = None
      \<longrightarrow> post_livekit_token toJwt srv body =
            \<lparr>status = 500,
             json = [(''error'', JStr ''Failed to generate token''),
                     (''details'', JStr cannot_destructure)]\<rparr>)
   \<and> status (post_livekit_token toJwt srv body) \<in> {200, 400, 500}"
proof (intro conjI impI)
  show "status (post_livekit_token toJwt srv body) = 400
      \<longleftrightarrow> (\<exists>b. body = Some b \<and> (\<not> truthy (req_roomName b) \<or> \<not> truthy (req_participantName b)))"
    by (cases body) (simp_all add: post_livekit_token_def Let_def split: sum.splits)
next
  assume "body = Some req \<and> truthy (req_roomName req) \<and> truthy (req_participantName req)
        \<and> truthy (LIVEKIT_API_KEY srv) \<and> truthy (LIVEKIT_API_SECRET srv)
        \<and> toJwt (LIVEKIT_API_KEY srv) (LIVEKIT_API_SECRET srv)
             \<lparr>identity = req_participantName req, ttl = ''10m''\<rparr>
             \<lparr>roomJoin = True, room = req_roomName req, canPublish = True, canSubscribe = True,
              canPublishData = True\<rparr> = JwtValue (JStr jwt)
        \<and> jwt \<noteq> []"
  then show "post_livekit_token toJwt srv body =
            \<lparr>status = 200,
             json = [(''token'', JStr jwt), (''wsUrl'', LIVEKIT_WS_URL srv),
                     (''roomName'', req_roomName req),
                     (''participantName'', req_participantName req)]\<rparr>"
    by (simp add: post_livekit_token_def generateLiveKitToken_def Let_def)
next
  assume "body = Some req \<and> truthy (req_roomName req) \<and> truthy (req_participantName req)
        \<and> (\<not> truthy (LIVEKIT_API_KEY srv) \<or> \<not> truthy (LIVEKIT_API_SECRET srv))"
  then show "post_livekit_token toJwt srv body =
            \<lparr>status = 500,
             json = [(''error'', JStr ''Failed to generate token''),
                     (''details'', JStr ''LiveKit API credentials not configured'')]\<rparr>"
    by (auto simp: post_livekit_token_def generateLiveKitToken_def Let_def)
next
  assume "body = None"
  then show "post_livekit_token toJwt srv body =
            \<lparr>status = 500,
             json = [(''error'', JStr ''Failed to generate token''),
                     (''details'', JStr cannot_destructure)]\<rparr>"
    by (simp add: post_livekit_token_def)
next
  show "status (post_livekit_token toJwt srv body) \<in> {200, 400, 500}"
    by (cases body) (simp_all add: post_livekit_token_def Let_def split: sum.splits)
qed

lemma no_credentials:
  "\<not> truthy (LIVEKIT_API_KEY (demo_server\<lparr>process_env := Map.empty\<rparr>))"
  by (simp add: LIVEKIT_API_KEY_def getenv_def js_or_def)

theorem livekit_token_responses_witness:
  "post_livekit_token demo_toJwt demo_server
      (Some \<lparr>req_roomName = JStr ''room-1'', req_participantName = JStr ''alice'', req_phoneNumber = JUndefined\<rparr>)
     = \<lparr>status = 200,
        json = [(''token'', JStr ''jwt.alice.room-1''), (''wsUrl'', JStr ''wss://lk''),
                (''roomName'', JStr ''room-1''), (''participantName'', JStr ''alice'')]\<rparr>
   \<and> status (post_livekit_token demo_toJwt demo_server
      (Some \<lparr>req_roomName = JUndefined, req_participantName = JStr ''alice'', req_phoneNumber = JUndefined\<rparr>)) = 400
   \<and> status (post_livekit_token demo_toJwt (demo_server\<lparr>process_env := Map.empty\<rparr>)
      (Some \<lparr>req_roomName = JStr ''room-1'', req_participantName = JStr ''alice'', req_phoneNumber = JUndefined\<rparr>)) = 500
   \<and> status (post_livekit_token demo_toJwt demo_server None) = 500"
proof -
  let ?ok = "\<lparr>req_roomName = JStr ''room-1'', req_participantName = JStr ''alice'', req_phoneNumber = JUndefined\<rparr>"
  let ?missing = "\<lparr>req_roomName = JUndefined, req_participantName = JStr ''alice'', req_phoneNumber = JUndefined\<rparr>"
  have ws: "LIVEKIT_WS_URL demo_server = JStr ''wss://lk''"
    by (simp add: LIVEKIT_WS_URL_def demo_server_def getenv_def js_or_def)
  have j: "demo_toJwt (LIVEKIT_API_KEY demo_server) (LIVEKIT_API_SECRET demo_server)
             \<lparr>identity = req_participantName ?ok, ttl = ''10m''\<rparr>
             \<lparr>roomJoin = True, room = req_roomName ?ok, canPublish = True, canSubscribe = True,
              canPublishData = True\<rparr> = JwtValue (JStr ''jwt.alice.room-1'')"
    by (simp add: demo_toJwt_def)
  have 1: "post_livekit_token demo_toJwt demo_server (Some ?ok)
     = \<lparr>status = 200,
        json = [(''token'', JStr ''jwt.alice.room-1''), (''wsUrl'', JStr ''wss://lk''),
                (''roomName'', JStr ''room-1''), (''participantName'', JStr ''alice'')]\<rparr>"
    using livekit_token_responses [of demo_toJwt demo_server "Some ?ok" ?ok "''jwt.alice.room-1''"] j
      demo_credentials
    by (simp add: ws)
  have 2: "status (post_livekit_token demo_toJwt demo_server (Some ?missing)) = 400"
    using livekit_token_responses [of demo_toJwt demo_server "Some ?missing"] by simp
  have 3: "status (post_livekit_token demo_toJwt (demo_server\<lparr>process_env := Map.empty\<rparr>) (Some ?ok)) = 500"
    using livekit_token_responses [of demo_toJwt "demo_server\<lparr>process_env := Map.empty\<rparr>" "Some ?ok" ?ok]
      no_credentials
    by simp
  have 4: "status (post_livekit_token demo_toJwt demo_server None) = 500"
    using livekit_token_responses [of demo_toJwt demo_server None] by simp
  from 1 2 3 4 show ?thesis by blast
qed

text \<open>
  C4 as stated fails: a body whose \<open>roomName\<close> is the empty string has the field, and
  is answered 400.
\<close>

theorem livekit_token_responses_counterexample:
  "req_roomName \<lparr>req_roomName = JStr [], req_participantName = JStr ''alice'', req_phoneNumber = JUndefined\<rparr>
     \<noteq> JUndefined
   \<and> req_participantName \<lparr>req_roomName = JStr [], req_participantName = JStr ''alice'', req_phoneNumber = JUndefined\<rparr>
     \<noteq> JUndefined
   \<and> post_livekit_token demo_toJwt demo_server
        (Some \<lparr>req_roomName = JStr [], req_participantName = JStr ''alice'', req_phoneNumber = JUndefined\<rparr>)
      = \<lparr>status = 400, json = [(''error'', JStr ''roomName and participantName are required'')]\<rparr>"
  by (simp add: post_livekit_token_def)


end
